theory Spec2Isabelle
  imports Complex_Main
begin

section \<open>Strings, numbers and values of the host language\<close>

text \<open>
  The application is one Python class, \<open>EnhancedTraumaAssessmentApp\<close>, and a handful of
  event handlers around a single instance of it. A Python string is modelled as a
  \<open>string\<close> holding the UTF-8 bytes of its characters; the symbols the source prints
  (check marks, coloured circles, bullets) are spelled out as their bytes. Comparison,
  concatenation, search for a substring and replacement of an ASCII character are the
  same on the bytes as on the characters. A slice and a loop over the characters count
  characters, so they skip the continuation bytes.
\<close>

definition truthy :: "string \<Rightarrow> bool" where
  "truthy s = (s \<noteq> [])"

definition truthy_opt :: "string option \<Rightarrow> bool" where
  "truthy_opt x = (case x of None \<Rightarrow> False | Some s \<Rightarrow> truthy s)"

definition is_continuation :: "char \<Rightarrow> bool" where
  "is_continuation c = ((of_char c :: nat) div 64 = 2)"

text \<open>\<open>py_take n s\<close> is the slice \<open>s[:n]\<close>, \<open>py_len s\<close> the number of characters.\<close>

fun py_take :: "nat \<Rightarrow> string \<Rightarrow> string" where
  "py_take n [] = []"
| "py_take n (c # cs) =
     (if is_continuation c then c # py_take n cs
      else (case n of 0 \<Rightarrow> [] | Suc k \<Rightarrow> c # py_take k cs))"

definition py_len :: "string \<Rightarrow> nat" where
  "py_len s = length (filter (\<lambda>c. \<not> is_continuation c) s)"

text \<open>
  The case mappings \<open>str.lower\<close>, \<open>str.upper\<close> and \<open>str.title\<close> belong to the
  language, with its tables of Unicode characters. The operations take them as a
  parameter, so every property proved holds whatever these three methods compute.
\<close>

record str_methods =
  lower :: "string \<Rightarrow> string"
  upper :: "string \<Rightarrow> string"
  title :: "string \<Rightarrow> string"

text \<open>
  The three methods on ASCII text, to compute with: a letter \<open>A\<close> to \<open>Z\<close> or \<open>a\<close> to
  \<open>z\<close> changes case, every other byte stays. In \<open>title\<close> a letter that follows a
  non-letter is put in upper case, one that follows a letter in lower case.
\<close>

definition lower_char :: "char \<Rightarrow> char" where
  "lower_char c = (let n = (of_char c :: nat) in
     if 65 \<le> n \<and> n \<le> 90 then char_of (n + 32) else c)"

definition upper_char :: "char \<Rightarrow> char" where
  "upper_char c = (let n = (of_char c :: nat) in
     if 97 \<le> n \<and> n \<le> 122 then char_of (n - 32) else c)"

definition is_lower :: "char \<Rightarrow> bool" where
  "is_lower c = (let n = (of_char c :: nat) in 97 \<le> n \<and> n \<le> 122)"

definition is_upper :: "char \<Rightarrow> bool" where
  "is_upper c = (let n = (of_char c :: nat) in 65 \<le> n \<and> n \<le> 90)"

fun title_from :: "bool \<Rightarrow> string \<Rightarrow> string" where
  "title_from prev_cased [] = []"
| "title_from prev_cased (c # cs) =
     (if is_lower c then (if prev_cased then c else upper_char c) # title_from True cs
      else if is_upper c then (if prev_cased then lower_char c else c) # title_from True cs
      else c # title_from False cs)"

definition ascii :: str_methods where
  "ascii = \<lparr>lower = map lower_char, upper = map upper_char, title = title_from False\<rparr>"

definition replace_char :: "char \<Rightarrow> char \<Rightarrow> string \<Rightarrow> string" where
  "replace_char old new s = map (\<lambda>c. if c = old then new else c) s"

fun startswith :: "string \<Rightarrow> string \<Rightarrow> bool" where
  "startswith s [] = True"
| "startswith [] (k # ks) = False"
| "startswith (c # cs) (k # ks) = (c = k \<and> startswith cs ks)"

text \<open>\<open>contains s k\<close> is Python's \<open>k in s\<close> on strings.\<close>

fun contains :: "string \<Rightarrow> string \<Rightarrow> bool" where
  "contains [] k = (k = [])"
| "contains (c # cs) k = (startswith (c # cs) k \<or> contains cs k)"

definition endswith :: "string \<Rightarrow> string \<Rightarrow> bool" where
  "endswith s k = startswith (rev s) (rev k)"

text \<open>\<open>str(n)\<close> of an integer: decimal digits, a minus sign for a negative number.\<close>

definition digit_char :: "nat \<Rightarrow> char" where
  "digit_char d = char_of (48 + d)"

function str_nat :: "nat \<Rightarrow> string" where
  "str_nat n = (if n < 10 then [digit_char n] else str_nat (n div 10) @ [digit_char (n mod 10)])"
  by pat_completeness auto
termination
  by (relation "measure id") auto

declare str_nat.simps [simp del]

definition str_int :: "int \<Rightarrow> string" where
  "str_int i = (if i < 0 then CHR ''-'' # str_nat (nat (- i)) else str_nat (nat i))"

text \<open>
  \<open>int(x)\<close> of a finite number truncates towards zero. The age field of the form
  delivers a number, an integer or a float; a finite float is a rational.
\<close>

definition py_int :: "rat \<Rightarrow> int" where
  "py_int q = (if q < 0 then - \<lfloor>- q\<rfloor> else \<lfloor>q\<rfloor>)"

text \<open>
  A value that comes out of decoded JSON: the identifier in the answer of the platform,
  a column of a row of the lookup store. The source tests such a value for truth, turns
  it into text with \<open>str\<close>, asks whether it is a dictionary and walks its items, and
  calls string methods on it. So a dictionary is given by its text and its items in
  order, each item with the text of its value; a value of any other kind (a float, a
  list) by its truth value and its text.
\<close>

datatype pyval =
    PNone
  | PBool bool
  | PInt int
  | PStr string
  | PDict string "(string \<times> string) list"
  | POther bool string

fun py_truthy :: "pyval \<Rightarrow> bool" where
  "py_truthy PNone = False"
| "py_truthy (PBool b) = b"
| "py_truthy (PInt i) = (i \<noteq> 0)"
| "py_truthy (PStr s) = (s \<noteq> [])"
| "py_truthy (PDict t items) = (items \<noteq> [])"
| "py_truthy (POther b t) = b"

fun py_str :: "pyval \<Rightarrow> string" where
  "py_str PNone = ''None''"
| "py_str (PBool b) = (if b then ''True'' else ''False'')"
| "py_str (PInt i) = str_int i"
| "py_str (PStr s) = s"
| "py_str (PDict t items) = t"
| "py_str (POther b t) = t"

section \<open>The session report and the application object\<close>

record child_info =
  name :: string
  age :: int
  gender :: string
  location :: string

record assessment_data =
  parent_observations :: string
  ai_analysis :: string
  severity_score :: int
  risk_indicators :: "string list"
  cultural_context :: string

record attachment =
  path :: string
  timestamp :: string

record media_attachments =
  drawings :: "attachment list"
  audio_recordings :: "attachment list"
  photos :: "attachment list"

datatype role = User | Assistant

text \<open>The content of a chat turn is a text or a file reference \<open>{"path": file}\<close>.\<close>

datatype content = Text string | FilePath string

record turn =
  role :: role
  content :: content

text \<open>A message of the model-facing buffer: its content is always a text.\<close>

record chat_msg =
  msg_role :: role
  msg_content :: string

record report_data =
  child_info :: child_info
  assessment_data :: assessment_data
  media_attachments :: media_attachments
  mobile_app_id :: string
  session_start :: string
  conversation_history :: "turn list"

text \<open>
  A row of the \<open>responses\<close> table is a dictionary from column names to values. Nothing
  in the source checks which columns it has or what they hold.
\<close>

type_synonym specialist_row = "(string \<times> pyval) list"

text \<open>
  The application object. \<open>supabase\<close> tells whether the lookup-store client exists (it
  is \<open>None\<close> in the source when a credential is missing). \<open>submitted_report_id\<close> is
  \<open>None\<close> at first and then whatever value the platform sent as the identifier.
  \<open>specialist_response\<close> is an attribute that exists only once the polling loop has
  assigned it, so it is optional here.
\<close>

record app =
  report_data :: report_data
  is_onboarded :: bool
  submitted_report_id :: pyval
  polling_active :: bool
  ollama_conversation :: "chat_msg list"
  supabase :: bool
  specialist_response :: "specialist_row option"

text \<open>
  \<open>__init__\<close>: the identifier and the start time come from \<open>uuid.uuid4()\<close> and
  \<open>datetime.now()\<close>, the two credentials from the environment.
\<close>

definition init_app :: "string \<Rightarrow> string \<Rightarrow> string option \<Rightarrow> string option \<Rightarrow> app" where
  "init_app uuid4 now supabase_url supabase_key =
     \<lparr>report_data =
        \<lparr>child_info = \<lparr>name = [], age = 0, gender = [], location = []\<rparr>,
         assessment_data =
           \<lparr>parent_observations = [], ai_analysis = [], severity_score = 0,
            risk_indicators = [], cultural_context = []\<rparr>,
         media_attachments = \<lparr>drawings = [], audio_recordings = [], photos = []\<rparr>,
         mobile_app_id = uuid4,
         session_start = now,
         conversation_history = []\<rparr>,
      is_onboarded = False,
      submitted_report_id = PNone,
      polling_active = False,
      ollama_conversation = [],
      supabase = (truthy_opt supabase_url \<and> truthy_opt supabase_key),
      specialist_response = None\<rparr>"

section \<open>Onboarding\<close>

definition generate_cultural_context :: "str_methods \<Rightarrow> string \<Rightarrow> string" where
  "generate_cultural_context m loc =
     (let location_lower = lower m loc in
      if list_ex (contains location_lower) [''gaza'', ''palestine'', ''west bank'']
      then ''Assessment conducted considering ongoing conflict exposure and displacement trauma''
      else if list_ex (contains location_lower) [''ukraine'', ''kyiv'', ''kharkiv'', ''mariupol'']
      then ''Assessment considering war-related trauma and displacement from conflict zones''
      else if list_ex (contains location_lower) [''syria'', ''lebanon'', ''jordan'']
      then ''Assessment considering refugee experience and cultural adaptation challenges''
      else ''Assessment conducted with consideration for local cultural context in '' @ loc)"

definition msg_fill_in :: string where
  "msg_fill_in = ''Please fill in all required information about your child.''"

definition msg_welcome :: "string \<Rightarrow> string" where
  "msg_welcome child_name =
     ''Welcome! I'' @ [CHR 0x27] @ ''m ready to help you with '' @ child_name
       @ [CHR 0x27] @ ''s assessment.''"

text \<open>
  \<open>complete_onboarding\<close>: \<open>all([...])\<close> is the truth value of each argument, so a
  string must be non-empty and the age non-zero. Nothing else is checked.
\<close>

definition complete_onboarding ::
    "str_methods \<Rightarrow> app \<Rightarrow> string \<Rightarrow> rat \<Rightarrow> string \<Rightarrow> string \<Rightarrow> (bool \<times> string) \<times> app" where
  "complete_onboarding m self child_name child_age child_gender child_location =
     (if \<not> (truthy child_name \<and> child_age \<noteq> 0 \<and> truthy child_gender \<and> truthy child_location)
      then ((False, msg_fill_in), self)
      else
        let rd = report_data self;
            rd1 = rd\<lparr>child_info :=
                     \<lparr>name = child_name, age = py_int child_age,
                      gender = child_gender, location = child_location\<rparr>\<rparr>;
            rd2 = rd1\<lparr>assessment_data :=
                     (assessment_data rd1)\<lparr>cultural_context :=
                        generate_cultural_context m child_location\<rparr>\<rparr>
        in ((True, msg_welcome child_name), self\<lparr>report_data := rd2, is_onboarded := True\<rparr>))"

section \<open>Conversation\<close>

definition classify_file_type :: "str_methods \<Rightarrow> string \<Rightarrow> string" where
  "classify_file_type m file_path =
     (if list_ex (endswith (lower m file_path)) [''.jpg'', ''.jpeg'', ''.png'', ''.gif'', ''.bmp'']
      then ''image'' else ''other'')"

text \<open>
  A message of the chat box: the uploaded files and the text (empty when there is none).
\<close>

record message =
  files :: "string list"
  msg_text :: string

text \<open>
  The loop over the uploaded files. Each file becomes a user turn; an image is also
  filed under drawings or photos, stamped with the clock read at that moment
  (\<open>now k\<close> for the file at position \<open>k\<close>).
\<close>

fun add_files ::
    "str_methods \<Rightarrow> (nat \<Rightarrow> string) \<Rightarrow> nat \<Rightarrow> string list \<Rightarrow> turn list \<Rightarrow> media_attachments
       \<Rightarrow> turn list \<times> media_attachments" where
  "add_files m now k [] history media = (history, media)"
| "add_files m now k (file # rest) history media =
     (let file_type = classify_file_type m file;
          history1 = history @ [\<lparr>role = User, content = FilePath file\<rparr>];
          att = \<lparr>path = file, timestamp = now k\<rparr>;
          media1 =
            (if file_type = ''image''
             then (if contains (lower m file) ''draw''
                   then media\<lparr>drawings := drawings media @ [att]\<rparr>
                   else media\<lparr>photos := photos media @ [att]\<rparr>)
             else media)
      in add_files m now (Suc k) rest history1 media1)"

text \<open>
  \<open>add_message\<close> returns the new history (the second value of the source is a widget).
\<close>

definition add_message ::
    "str_methods \<Rightarrow> (nat \<Rightarrow> string) \<Rightarrow> app \<Rightarrow> turn list \<Rightarrow> message \<Rightarrow> turn list \<times> app" where
  "add_message m now self history message =
     (if \<not> is_onboarded self then (history, self)
      else
        let rd = report_data self;
            (history1, media1) =
              add_files m now 0 (files message) history (media_attachments rd);
            rd1 = rd\<lparr>media_attachments := media1\<rparr>;
            txt = msg_text message
        in
          if truthy txt then
            let history2 = history1 @ [\<lparr>role = User, content = Text txt\<rparr>];
                conv = ollama_conversation self @ [\<lparr>msg_role = User, msg_content = txt\<rparr>];
                current_obs = parent_observations (assessment_data rd1);
                rd2 = rd1\<lparr>assessment_data :=
                        (assessment_data rd1)\<lparr>parent_observations :=
                           (if truthy current_obs then current_obs @ '' '' @ txt else txt)\<rparr>\<rparr>
            in (history2,
                self\<lparr>report_data := rd2\<lparr>conversation_history := history2\<rparr>,
                     ollama_conversation := conv\<rparr>)
          else (history1, self\<lparr>report_data := rd1\<lparr>conversation_history := history1\<rparr>\<rparr>))"

text \<open>
  The handler of the ``new conversation'' button. It returns an empty history for the
  chat widget; the model keeps the effect on the application object.
\<close>

definition clear_conversation :: "app \<Rightarrow> app" where
  "clear_conversation self =
     (let rd = report_data self;
          rd1 = rd\<lparr>conversation_history := []\<rparr>;
          rd2 = rd1\<lparr>assessment_data := (assessment_data rd1)\<lparr>parent_observations := []\<rparr>\<rparr>;
          rd3 = rd2\<lparr>assessment_data := (assessment_data rd2)\<lparr>ai_analysis := []\<rparr>\<rparr>;
          rd4 = rd3\<lparr>media_attachments :=
                  \<lparr>drawings = [], audio_recordings = [], photos = []\<rparr>\<rparr>
      in self\<lparr>report_data := rd4\<rparr>)"

section \<open>Effects on the outside world\<close>

text \<open>
  What an operation does besides changing the application object is returned as a list
  of effects, in the order the source performs them: a milestone handed to the progress
  callback, a request to the language model, the HTTP POST, the start of the background
  thread, a query of the lookup store for a report identifier, and a wait of so many
  seconds.
\<close>

datatype chat_request =
    ImageChat string string
  | TextChat "chat_msg list"
  | StructuredChat string

record api_child_info =
  api_age :: int
  api_gender :: string
  api_location :: string

record api_data =
  api_child :: api_child_info
  api_assessment :: assessment_data
  api_media :: media_attachments
  api_mobile_app_id :: string

record http_request =
  url :: string
  json_body :: api_data
  timeout :: nat

datatype effect =
    Progress string
  | ChatRequest chat_request
  | HttpPost http_request
  | ThreadStart
  | Query pyval
  | Sleep nat

section \<open>Assistant replies\<close>

text \<open>
  The scan of the reversed history for the most recent user turn: the path of the file
  if that turn is a file reference, nothing if it is a text or if there is no user turn.
\<close>

fun last_user_image :: "turn list \<Rightarrow> string option" where
  "last_user_image [] = None"
| "last_user_image (msg # rest) =
     (if role msg = User
      then (case content msg of Text t \<Rightarrow> None | FilePath p \<Rightarrow> Some p)
      else last_user_image rest)"

definition image_prompt :: "string \<Rightarrow> string" where
  "image_prompt child_name =
     ''I am sharing an image related to my child '' @ child_name @ [CHR 0x27]
       @ ''s situation. Please analyze this image in the context of trauma assessment and respond empathetically.''"

definition image_fallback :: "string \<Rightarrow> string" where
  "image_fallback child_name =
     ''I can see you'' @ [CHR 0x27] @ ''ve shared an image. Thank you for providing this visual information about ''
       @ child_name
       @ ''. Visual expressions can tell us a lot about how children process their experiences. Could you tell me more about when this was created or what you''
       @ [CHR 0x27] @ ''d like me to know about it?''"

definition text_fallback :: "string \<Rightarrow> string" where
  "text_fallback child_name =
     ''Thank you for sharing that with me. I understand this is a difficult time for you and ''
       @ child_name @ ''. Could you tell me more about what you'' @ [CHR 0x27] @ ''re observing?''"

text \<open>
  \<open>bot_response\<close> is a generator; the model runs it to its end and returns the
  histories it yields, one per character of the reply. \<open>chat\<close> is the model client: it
  answers a request with a text or raises (\<open>None\<close>).
\<close>

definition bot_response ::
    "(chat_request \<Rightarrow> string option) \<Rightarrow> app \<Rightarrow> turn list \<Rightarrow> turn list list \<times> app \<times> effect list" where
  "bot_response chat self history =
     (if history = [] \<or> \<not> is_onboarded self then ([], self, [])
      else
        let child_name = name (child_info (report_data self));
            image_path = last_user_image (rev history);
            (request, fallback) =
              (case image_path of
                 Some p \<Rightarrow>
                   if truthy p then (ImageChat (image_prompt child_name) p, image_fallback child_name)
                   else (TextChat (ollama_conversation self), text_fallback child_name)
               | None \<Rightarrow> (TextChat (ollama_conversation self), text_fallback child_name));
            response_text = (case chat request of Some t \<Rightarrow> t | None \<Rightarrow> fallback);
            self1 = self\<lparr>ollama_conversation :=
                      ollama_conversation self @ [\<lparr>msg_role = Assistant, msg_content = response_text\<rparr>]\<rparr>
        in (map (\<lambda>k. history @ [\<lparr>role = Assistant, content = Text (py_take k response_text)\<rparr>])
              [1 ..< Suc (py_len response_text)],
            self1, [ChatRequest request]))"

section \<open>Report synthesis\<close>

definition msg_complete_form :: string where
  "msg_complete_form = ''Please complete the initial assessment form first.''"

definition msg_conversation_before_report :: string where
  "msg_conversation_before_report = ''Please have a conversation first before generating a report.''"

definition assessment_prompt :: "child_info \<Rightarrow> string" where
  "assessment_prompt child =
     concat [
        ''Based on our conversation about '',
        name child,
        '', a '',
        str_int (age child),
        ''-year-old '',
        gender child,
        '' from '',
        location child,
        '', generate a comprehensive trauma risk assessment report. \<newline>'',
        ''\<newline>'',
        ''Include:\<newline>'',
        ''- Parent observations summary from our conversation\<newline>'',
        ''- AI analysis of trauma indicators\<newline>'',
        ''- Severity score (1-10 scale)\<newline>'',
        ''- List of risk indicators identified\<newline>'',
        ''- Cultural context considering the child'' @ [CHR 0x27] @ ''s location and circumstances\<newline>'',
        ''\<newline>'',
        ''Consider the conversation history and any cultural factors relevant to '',
        location child,
        ''.'']"

definition progress_analyzing :: string where
  "progress_analyzing = [CHR 0xF0, CHR 0x9F, CHR 0xA4, CHR 0x96] @ '' Analyzing conversation with AI...''"

definition progress_generating :: string where
  "progress_generating =
     [CHR 0xF0, CHR 0x9F, CHR 0xA7, CHR 0xA0] @ '' AI is generating structured assessment...''"

definition progress_processing :: string where
  "progress_processing = [CHR 0xF0, CHR 0x9F, CHR 0x93, CHR 0x8A] @ '' Processing assessment data...''"

definition progress_formatting :: string where
  "progress_formatting = [CHR 0xF0, CHR 0x9F, CHR 0x93, CHR 0x8B] @ '' Formatting final report...''"

definition progress_fallback :: string where
  "progress_fallback =
     [CHR 0xE2, CHR 0x9A, CHR 0xA0] @ [CHR 0xEF, CHR 0xB8, CHR 0x8F] @ '' Using fallback assessment...''"

definition fallback_indicators :: "string list" where
  "fallback_indicators = [''sleep disturbances'', ''behavioral changes'', ''anxiety'']"

text \<open>\<open>sep.join(xs)\<close>.\<close>

fun join_str :: "string \<Rightarrow> string list \<Rightarrow> string" where
  "join_str sep [] = []"
| "join_str sep [x] = x"
| "join_str sep (x # y # ys) = x @ sep @ join_str sep (y # ys)"

text \<open>
  The four readings of the clock inside the report template, already formatted.
\<close>

record report_clock =
  generated_at :: string
  assessment_date :: string
  generated_iso :: string
  next_review :: string

text \<open>The report template, from the data of the application object.\<close>

definition format_report :: "str_methods \<Rightarrow> report_clock \<Rightarrow> app \<Rightarrow> string" where
  "format_report m clk self =
     (let rd = report_data self;
          child = child_info rd;
          assessment = assessment_data rd;
          media = media_attachments rd;
          severity = severity_score assessment;
          indicators = risk_indicators assessment
      in concat [
        ''# '' @ [CHR 0xF0, CHR 0x9F, CHR 0x94, CHR 0x8D] @ '' COMPREHENSIVE TRAUMA ASSESSMENT REPORT\<newline>'',
        ''\<newline>'',
        ''**Generated:** '',
        generated_at clk,
        ''  \<newline>'',
        ''**Assessment ID:** '',
        py_take 8 (mobile_app_id rd),
        ''  \<newline>'',
        ''**Confidentiality Level:** Protected Health Information\<newline>'',
        ''**Platform:** Child Trauma Assessment AI\<newline>'',
        ''\<newline>'',
        ''---\<newline>'',
        ''\<newline>'',
        ''## '' @ [CHR 0xF0, CHR 0x9F, CHR 0x91, CHR 0xA4] @ '' CHILD INFORMATION\<newline>'',
        ''\<newline>'',
        ''**Name:** '',
        name child,
        ''  \<newline>'',
        ''**Age:** '',
        str_int (age child),
        '' years old  \<newline>'',
        ''**Gender:** '',
        title m (gender child),
        ''  \<newline>'',
        ''**Location:** '',
        location child,
        ''  \<newline>'',
        ''**Assessment Date:** '',
        assessment_date clk,
        ''\<newline>'',
        ''\<newline>'',
        ''---\<newline>'',
        ''\<newline>'',
        ''## '' @ [CHR 0xF0, CHR 0x9F, CHR 0x91, CHR 0xA5] @ '' PARENT OBSERVATIONS\<newline>'',
        ''\<newline>'',
        parent_observations assessment,
        ''\<newline>'',
        ''\<newline>'',
        ''**Session Details:**\<newline>'',
        ''- **Duration:** '',
        str_nat (length (conversation_history rd)),
        '' message exchanges\<newline>'',
        ''- **Media Provided:** '',
        str_nat (length (drawings media)),
        '' drawings, '',
        str_nat (length (photos media)),
        '' photographs\<newline>'',
        ''\<newline>'',
        ''---\<newline>'',
        ''\<newline>'',
        ''## '' @ [CHR 0xF0, CHR 0x9F, CHR 0xA7, CHR 0xA0] @ '' AI ANALYSIS\<newline>'',
        ''\<newline>'',
        ai_analysis assessment,
        ''\<newline>'',
        ''\<newline>'',
        ''**Behavioral Patterns Identified:**\<newline>'',
        join_str [CHR 0x0A] (map (\<lambda>indicator. [CHR 0xE2, CHR 0x80, CHR 0xA2] @ '' '' @ indicator) indicators),
        ''\<newline>'',
        ''\<newline>'',
        ''---\<newline>'',
        ''\<newline>'',
        ''## '' @ [CHR 0xE2, CHR 0x9A, CHR 0xA0] @ [CHR 0xEF, CHR 0xB8, CHR 0x8F] @ '' SEVERITY ASSESSMENT\<newline>'',
        ''\<newline>'',
        ''**Severity Score:** '',
        str_int severity,
        ''/10  \<newline>'',
        ''**Risk Level:** '',
        (if severity < 7 then [CHR 0xF0, CHR 0x9F, CHR 0x9F, CHR 0xA1] @ '' Moderate Risk''
         else [CHR 0xF0, CHR 0x9F, CHR 0x94, CHR 0xB4] @ '' High Risk - Urgent Intervention Recommended''),
        ''  \<newline>'',
        ''**Clinical Priority:** '',
        (if severity < 7 then ''Standard referral appropriate''
         else ''Expedited professional evaluation needed''),
        ''\<newline>'',
        ''\<newline>'',
        ''---\<newline>'',
        ''\<newline>'',
        ''## '' @ [CHR 0xF0, CHR 0x9F, CHR 0x8C, CHR 0x8D] @ '' CULTURAL CONTEXT\<newline>'',
        ''\<newline>'',
        cultural_context assessment,
        ''\<newline>'',
        ''\<newline>'',
        ''This assessment considers the cultural and environmental factors specific to '',
        location child,
        '', including region-specific trauma expressions, family dynamics, and community support systems.\<newline>'',
        ''\<newline>'',
        ''---\<newline>'',
        ''\<newline>'',
        ''## '' @ [CHR 0xF0, CHR 0x9F, CHR 0x93, CHR 0x8B] @ '' CLINICAL RECOMMENDATIONS\<newline>'',
        ''\<newline>'',
        ''**Immediate Actions:**\<newline>'',
        ''1. Schedule comprehensive evaluation with licensed child trauma specialist\<newline>'',
        ''2. Ensure stable, predictable environment for '',
        name child,
        ''\<newline>'',
        ''3. Implement safety planning and crisis contact protocols\<newline>'',
        ''\<newline>'',
        ''**Therapeutic Interventions:**\<newline>'',
        ''1. Begin trauma-focused cognitive behavioral therapy (TF-CBT)\<newline>'',
        ''2. Consider family therapy to strengthen support systems\<newline>'',
        ''3. Monitor sleep, appetite, and behavioral patterns daily\<newline>'',
        ''\<newline>'',
        ''**Cultural Considerations:**\<newline>'',
        ''1. Engage culturally competent mental health services\<newline>'',
        ''2. Incorporate traditional coping mechanisms where appropriate\<newline>'',
        ''3. Consider community-based support resources\<newline>'',
        ''\<newline>'',
        ''**Follow-up:**\<newline>'',
        ''- Initial professional evaluation within 1-2 weeks\<newline>'',
        ''- Regular monitoring and assessment as recommended by treating clinician\<newline>'',
        ''\<newline>'',
        ''---\<newline>'',
        ''\<newline>'',
        ''## '' @ [CHR 0xE2, CHR 0x9A, CHR 0x96] @ [CHR 0xEF, CHR 0xB8, CHR 0x8F] @ '' IMPORTANT DISCLAIMERS\<newline>'',
        ''\<newline>'',
        ''- **Preliminary Screening Tool:** This AI-generated assessment is for screening purposes only and does NOT constitute a clinical diagnosis\<newline>'',
        ''- **Professional Validation Required:** All findings must be validated by licensed mental health professionals\<newline>'',
        ''- **Emergency Protocol:** For immediate safety concerns, contact emergency services immediately\<newline>'',
        ''- **Clinical Judgment:** AI analysis should supplement, not replace, professional clinical assessment\<newline>'',
        ''\<newline>'',
        ''**Report Generated:** '',
        generated_iso clk,
        ''  \<newline>'',
        ''**Next Review Recommended:** '',
        next_review clk,
        '' (2 weeks)\<newline>''])"

text \<open>
  The \<open>try\<close> block of the synthesis: the structured request, then the validation of
  the answer against the record shape (\<open>model_validate_json\<close>, \<open>None\<close> when it raises),
  then the five assignments. \<open>Inl\<close> is an exception, with the milestones reported before
  it was raised.
\<close>

definition progress_effects :: "bool \<Rightarrow> string \<Rightarrow> effect list" where
  "progress_effects progress_callback m = (if progress_callback then [Progress m] else [])"

definition structured_assessment ::
    "(chat_request \<Rightarrow> string option) \<Rightarrow> (string \<Rightarrow> assessment_data option) \<Rightarrow> bool \<Rightarrow> app
       \<Rightarrow> effect list + (app \<times> effect list)" where
  "structured_assessment chat model_validate_json progress_callback self =
     (let request = StructuredChat (assessment_prompt (child_info (report_data self)));
          es1 = progress_effects progress_callback progress_generating @ [ChatRequest request]
      in case chat request of
           None \<Rightarrow> Inl es1
         | Some response_content \<Rightarrow>
             (let es2 = es1 @ progress_effects progress_callback progress_processing
              in case model_validate_json response_content of
                   None \<Rightarrow> Inl es2
                 | Some assessment \<Rightarrow>
                     (let rd = report_data self;
                          ad = (assessment_data rd)
                                 \<lparr>parent_observations := parent_observations assessment,
                                  ai_analysis := ai_analysis assessment,
                                  severity_score := severity_score assessment,
                                  risk_indicators := risk_indicators assessment,
                                  cultural_context := cultural_context assessment\<rparr>
                      in Inr (self\<lparr>report_data := rd\<lparr>assessment_data := ad\<rparr>\<rparr>,
                              es2 @ progress_effects progress_callback progress_formatting))))"

text \<open>The \<open>except\<close> branch: only the score and the indicators are assigned.\<close>

definition fallback_assessment :: "app \<Rightarrow> app" where
  "fallback_assessment self =
     (let rd = report_data self;
          ad = (assessment_data rd)\<lparr>severity_score := 6, risk_indicators := fallback_indicators\<rparr>
      in self\<lparr>report_data := rd\<lparr>assessment_data := ad\<rparr>\<rparr>)"

definition generate_comprehensive_report ::
    "str_methods \<Rightarrow> report_clock \<Rightarrow> (chat_request \<Rightarrow> string option) \<Rightarrow> (string \<Rightarrow> assessment_data option) \<Rightarrow> bool
       \<Rightarrow> app \<Rightarrow> string \<times> app \<times> effect list" where
  "generate_comprehensive_report m clk chat model_validate_json progress_callback self =
     (if \<not> is_onboarded self then (msg_complete_form, self, [])
      else if ollama_conversation self = [] then (msg_conversation_before_report, self, [])
      else
        let es0 = progress_effects progress_callback progress_analyzing;
            (self1, es1) =
              (case structured_assessment chat model_validate_json progress_callback self of
                 Inr (s, es) \<Rightarrow> (s, es)
               | Inl es \<Rightarrow>
                   (fallback_assessment self,
                    es @ progress_effects progress_callback progress_fallback))
        in (format_report m clk self1, self1, es0 @ es1))"

section \<open>Specialist replies\<close>

definition msg_no_response :: string where
  "msg_no_response = ''No specialist response available yet. Still monitoring...''"

definition urgency_color :: "string \<Rightarrow> string" where
  "urgency_color level =
     (if level = ''low'' then [CHR 0xF0, CHR 0x9F, CHR 0x9F, CHR 0xA2]
      else if level = ''medium'' then [CHR 0xF0, CHR 0x9F, CHR 0x9F, CHR 0xA1]
      else if level = ''high'' then [CHR 0xF0, CHR 0x9F, CHR 0x9F, CHR 0xA0]
      else if level = ''critical'' then [CHR 0xF0, CHR 0x9F, CHR 0x94, CHR 0xB4]
      else [CHR 0xE2, CHR 0x9A, CHR 0xAA])"

text \<open>The loop over the items of a recommendations dictionary.\<close>

fun format_items :: "str_methods \<Rightarrow> (string \<times> string) list \<Rightarrow> string" where
  "format_items m [] = []"
| "format_items m ((key, val) # rest) =
     ''**'' @ title m (replace_char (CHR ''_'') (CHR '' '') key) @ '':** '' @ val
       @ ''\<newline>\<newline>'' @ format_items m rest"

text \<open>
  The end of the text: the items of a dictionary, or \<open>str\<close> of any other value.
\<close>

definition format_recommendations :: "str_methods \<Rightarrow> pyval \<Rightarrow> string" where
  "format_recommendations m recs =
     (case recs of PDict t items \<Rightarrow> format_items m items | _ \<Rightarrow> py_str recs)"

text \<open>
  The template of the reply, from the urgency level and the response date (two texts)
  and the three other columns.
\<close>

definition response_template ::
    "str_methods \<Rightarrow> string \<Rightarrow> string \<Rightarrow> pyval \<Rightarrow> pyval \<Rightarrow> pyval \<Rightarrow> string" where
  "response_template m level date psychologist_id psychologist_notes recs =
     (let urgency_emoji = urgency_color level
      in concat [
        ''\<newline>'',
        ''# '' @ [CHR 0xF0, CHR 0x9F, CHR 0x91, CHR 0xA8] @ [CHR 0xE2, CHR 0x80, CHR 0x8D] @ [CHR 0xE2, CHR 0x9A, CHR 0x95] @ [CHR 0xEF, CHR 0xB8, CHR 0x8F] @ '' SPECIALIST RESPONSE RECEIVED\<newline>'',
        ''\<newline>'',
        ''**Response Date:** '',
        replace_char (CHR ''T'') (CHR '' '') (py_take 19 date),
        ''  \<newline>'',
        ''**Specialist ID:** '',
        py_str psychologist_id,
        ''  \<newline>'',
        ''**Urgency Level:** '',
        urgency_emoji,
        '' '',
        upper m level,
        ''\<newline>'',
        ''\<newline>'',
        ''---\<newline>'',
        ''\<newline>'',
        ''## '' @ [CHR 0xF0, CHR 0x9F, CHR 0x93, CHR 0x9D] @ '' PSYCHOLOGIST NOTES\<newline>'',
        ''\<newline>'',
        py_str psychologist_notes,
        ''\<newline>'',
        ''\<newline>'',
        ''---\<newline>'',
        ''\<newline>'',
        ''## '' @ [CHR 0xF0, CHR 0x9F, CHR 0x92, CHR 0xA1] @ '' RECOMMENDATIONS\<newline>'',
        ''\<newline>'',
        format_recommendations m recs])"

text \<open>
  \<open>response[k]\<close> raises when the row has no column \<open>k\<close>. The urgency level is looked
  up in a dictionary of texts and put in upper case, the response date is sliced and has
  a character replaced: each of the two raises unless the value is a text.
\<close>

definition column :: "specialist_row \<Rightarrow> string \<Rightarrow> pyval option" where
  "column response k = map_of response k"

definition text_column :: "specialist_row \<Rightarrow> string \<Rightarrow> string option" where
  "text_column response k =
     (case map_of response k of Some (PStr s) \<Rightarrow> Some s | _ \<Rightarrow> None)"

text \<open>The rendering of a row; \<open>None\<close> when building it raises.\<close>

definition format_response :: "str_methods \<Rightarrow> specialist_row \<Rightarrow> string option" where
  "format_response m response =
     (case text_column response ''urgency_level'' of
        None \<Rightarrow> None
      | Some level \<Rightarrow>
     (case text_column response ''response_date'' of
        None \<Rightarrow> None
      | Some date \<Rightarrow>
     (case column response ''psychologist_id'' of
        None \<Rightarrow> None
      | Some psychologist_id \<Rightarrow>
     (case column response ''psychologist_notes'' of
        None \<Rightarrow> None
      | Some psychologist_notes \<Rightarrow>
     (case column response ''recommendations'' of
        None \<Rightarrow> None
      | Some recs \<Rightarrow>
          Some (response_template m level date psychologist_id psychologist_notes recs))))))"

text \<open>
  \<open>get_specialist_response\<close> reads the application object and changes nothing. Its
  value is \<open>None\<close> when the call raises.
\<close>

definition get_specialist_response :: "str_methods \<Rightarrow> app \<Rightarrow> (bool \<times> string) option" where
  "get_specialist_response m self =
     (case specialist_response self of
        Some response \<Rightarrow>
          (case format_response m response of
             Some formatted_response \<Rightarrow> Some (True, formatted_response)
           | None \<Rightarrow> None)
      | None \<Rightarrow> Some (False, msg_no_response))"

section \<open>Polling\<close>

definition start_response_polling :: "app \<Rightarrow> app \<times> effect list" where
  "start_response_polling self =
     (if \<not> supabase self \<or> \<not> py_truthy (submitted_report_id self) then (self, [])
      else if polling_active self then (self, [])
      else (self\<lparr>polling_active := True\<rparr>, [ThreadStart]))"

definition max_polls :: nat where
  "max_polls = 120"

text \<open>
  The lookup store answers a query with rows (none when there is no reply yet) or the
  query raises.
\<close>

datatype query_outcome = QueryRaises | Rows "specialist_row list"

text \<open>
  One pass through the body of the \<open>while\<close> loop, given the outcome of its query. With
  a row, the \<open>try\<close> block stores the first one and renders it; if that goes well it
  clears the flag and breaks out of the loop, and if the rendering raises, the
  \<open>except\<close> branch waits and counts, the row staying stored and the flag set. Without
  a row the \<open>try\<close> block waits and counts, and so does the \<open>except\<close> branch when the
  query raises. The result is the application object, the counter, whether the loop was
  left by \<open>break\<close>, and the effects.
\<close>

definition poll_body ::
    "str_methods \<Rightarrow> query_outcome \<Rightarrow> app \<Rightarrow> nat \<Rightarrow> app \<times> nat \<times> bool \<times> effect list" where
  "poll_body m outcome self poll_count =
     (let q = Query (submitted_report_id self) in
      case outcome of
        Rows (specialist_response1 # others) \<Rightarrow>
          (let self1 = self\<lparr>specialist_response := Some specialist_response1\<rparr>
           in case get_specialist_response m self1 of
                Some formatted \<Rightarrow> (self1\<lparr>polling_active := False\<rparr>, poll_count, True, [q])
              | None \<Rightarrow> (self1, poll_count + 1, False, [q, Sleep 5]))
      | Rows [] \<Rightarrow> (self, poll_count + 1, False, [q, Sleep 5])
      | QueryRaises \<Rightarrow> (self, poll_count + 1, False, [q, Sleep 5]))"

text \<open>
  The \<open>while\<close> loop. \<open>store k\<close> is the outcome of the query made when the counter is
  \<open>k\<close>: the counter grows by one with every query that does not end the loop.
\<close>

function poll_loop ::
    "str_methods \<Rightarrow> (nat \<Rightarrow> query_outcome) \<Rightarrow> app \<Rightarrow> nat \<Rightarrow> effect list
       \<Rightarrow> app \<times> nat \<times> effect list" where
  "poll_loop m store self poll_count trace =
     (if polling_active self \<and> poll_count < max_polls then
        (case poll_body m (store poll_count) self poll_count of
           (self1, poll_count1, break, es) \<Rightarrow>
             if break then (self1, poll_count1, trace @ es)
             else poll_loop m store self1 poll_count1 (trace @ es))
      else (self, poll_count, trace))"
  by pat_completeness auto
termination
  by (relation "measure (\<lambda>(m, store, self, poll_count, trace). max_polls - poll_count)")
     (auto simp: poll_body_def Let_def split: query_outcome.splits list.splits option.splits)

declare poll_loop.simps [simp del]

text \<open>The statement after the loop: the flag is cleared once the counter has reached the maximum.\<close>

definition stop_after_max :: "app \<Rightarrow> nat \<Rightarrow> app" where
  "stop_after_max self poll_count =
     (if poll_count \<ge> max_polls then self\<lparr>polling_active := False\<rparr> else self)"

text \<open>\<open>_poll_for_response\<close>, the body of the background thread.\<close>

definition poll_for_response ::
    "str_methods \<Rightarrow> (nat \<Rightarrow> query_outcome) \<Rightarrow> app \<Rightarrow> app \<times> effect list" where
  "poll_for_response m store self =
     (case poll_loop m store self 0 [] of
        (self1, poll_count, trace) \<Rightarrow> (stop_after_max self1 poll_count, trace))"

section \<open>Pushing the report\<close>

definition msg_conversation_before_push :: string where
  "msg_conversation_before_push = ''Please have a conversation first before pushing a report.''"

text \<open>
  What can come back from the POST. An exception is classified by the handler that
  catches it. A response has a status code, a body text, and the result of
  \<open>response.json()\<close>: an exception, or the decoded body. The decoded body is a JSON
  object, of which the source reads the \<open>id\<close> entry (it may be missing), or a value of
  another type, given by the name of its Python type.
\<close>

datatype exn = ConnectionError | Timeout | RequestException string | OtherException string

datatype json_body = JsonObject "pyval option" | JsonOther string

record http_response =
  status_code :: int
  body_text :: string
  json :: "exn + json_body"

datatype http_outcome = PostRaises exn | Response http_response

definition cross :: string where
  "cross = [CHR 0xE2, CHR 0x9D, CHR 0x8C]"

definition handle_exn :: "exn \<Rightarrow> bool \<times> string" where
  "handle_exn e =
     (case e of
        ConnectionError \<Rightarrow>
          (False, cross @ '' Could not connect to Care Bridge Platform. Please check if the platform is running.'')
      | Timeout \<Rightarrow> (False, cross @ '' Request timed out. Please try again.'')
      | RequestException msg \<Rightarrow> (False, cross @ '' Network error: '' @ msg)
      | OtherException msg \<Rightarrow> (False, cross @ '' Unexpected error: '' @ msg))"

text \<open>
  \<open>result.get\<close> on a decoded body that is not a dictionary raises an
  \<open>AttributeError\<close>, which the last handler catches.
\<close>

definition no_get :: "string \<Rightarrow> exn" where
  "no_get type_name =
     OtherException ([CHR 0x27] @ type_name @ [CHR 0x27] @ '' object has no attribute ''
                       @ [CHR 0x27] @ ''get'' @ [CHR 0x27])"

definition msg_pushed :: "string \<Rightarrow> string" where
  "msg_pushed report_id =
     [CHR 0xE2, CHR 0x9C, CHR 0x85] @ '' Report successfully pushed to Care Bridge Platform!\<newline>''
       @ [CHR 0xF0, CHR 0x9F, CHR 0x93, CHR 0x8B] @ '' Report ID: '' @ report_id @ ''\<newline>''
       @ [CHR 0xF0, CHR 0x9F, CHR 0x94, CHR 0x84] @ '' Now monitoring for specialist response...''"

definition msg_api_error :: "http_response \<Rightarrow> string" where
  "msg_api_error response =
     cross @ '' API Error: '' @ str_int (status_code response) @ '' - '' @ body_text response"

definition make_api_data :: "str_methods \<Rightarrow> app \<Rightarrow> api_data" where
  "make_api_data m self =
     (let rd = report_data self in
      \<lparr>api_child =
         \<lparr>api_age = age (child_info rd),
          api_gender = lower m (gender (child_info rd)),
          api_location = location (child_info rd)\<rparr>,
       api_assessment = assessment_data rd,
       api_media = media_attachments rd,
       api_mobile_app_id = mobile_app_id rd\<rparr>)"

text \<open>The request of the push: the URL, the payload and the timeout of ten seconds.\<close>

definition push_request :: "str_methods \<Rightarrow> string \<Rightarrow> app \<Rightarrow> http_request" where
  "push_request m base_url self =
     \<lparr>url = base_url @ ''/api/reports'', json_body = make_api_data m self, timeout = 10\<rparr>"

text \<open>\<open>result.get('id', 'Unknown')\<close> on a decoded object.\<close>

definition id_or_unknown :: "pyval option \<Rightarrow> pyval" where
  "id_or_unknown entry = (case entry of Some v \<Rightarrow> v | None \<Rightarrow> PStr ''Unknown'')"

text \<open>
  \<open>push_report_to_care_bridge\<close>. \<open>post\<close> is the network: the outcome of the request
  it is given. The \<open>try\<close> block issues the one POST; on status 201 it decodes the body,
  stores the identifier as it comes and calls \<open>start_response_polling\<close>.
\<close>

definition push_report_to_care_bridge ::
    "str_methods \<Rightarrow> (http_request \<Rightarrow> http_outcome) \<Rightarrow> string \<Rightarrow> app
       \<Rightarrow> (bool \<times> string) \<times> app \<times> effect list" where
  "push_report_to_care_bridge m post base_url self =
     (if \<not> is_onboarded self then ((False, msg_complete_form), self, [])
      else if conversation_history (report_data self) = []
      then ((False, msg_conversation_before_push), self, [])
      else
        let request = push_request m base_url self
        in case post request of
             PostRaises e \<Rightarrow> (handle_exn e, self, [HttpPost request])
           | Response response \<Rightarrow>
               if status_code response = 201 then
                 (case json response of
                    Inl e \<Rightarrow> (handle_exn e, self, [HttpPost request])
                  | Inr (JsonOther type_name) \<Rightarrow>
                      (handle_exn (no_get type_name), self, [HttpPost request])
                  | Inr (JsonObject entry) \<Rightarrow>
                      (let report_id = id_or_unknown entry;
                           self1 = self\<lparr>submitted_report_id := report_id\<rparr>;
                           (self2, es) = start_response_polling self1
                       in ((True, msg_pushed (py_str report_id)), self2, HttpPost request # es)))
               else ((False, msg_api_error response), self, [HttpPost request]))"

section \<open>The session as a transition system\<close>

text \<open>
  A session is the application object together with the background polling threads that
  are alive, each with its own counter. The primary flow runs one operation at a time; a
  background thread advances by one pass of its loop, from the test of the \<open>while\<close>
  condition to the next test, or to its end.
\<close>

record session =
  the_app :: app
  pollers :: "nat list"

definition spawned :: "effect list \<Rightarrow> nat list" where
  "spawned es = map (\<lambda>e. 0) (filter (\<lambda>e. e = ThreadStart) es)"

text \<open>
  One turn of a polling thread whose counter is \<open>poll_count\<close>: the new application
  object and the new counter, or no counter when the thread has ended.
\<close>

definition poll_turn :: "str_methods \<Rightarrow> query_outcome \<Rightarrow> app \<Rightarrow> nat \<Rightarrow> app \<times> nat option" where
  "poll_turn m outcome self poll_count =
     (if polling_active self \<and> poll_count < max_polls then
        (case poll_body m outcome self poll_count of
           (self1, poll_count1, break, es) \<Rightarrow>
             if break then (stop_after_max self1 poll_count1, None)
             else (self1, Some poll_count1))
      else (stop_after_max self poll_count, None))"

definition update_poller :: "nat \<Rightarrow> nat option \<Rightarrow> nat list \<Rightarrow> nat list" where
  "update_poller i r ps =
     (case r of Some k \<Rightarrow> ps[i := k] | None \<Rightarrow> take i ps @ drop (Suc i) ps)"

text \<open>The operations of the primary flow.\<close>

inductive primary :: "str_methods \<Rightarrow> session \<Rightarrow> session \<Rightarrow> bool" for m where
  onboarding:
    "primary m c (c\<lparr>the_app := snd (complete_onboarding m (the_app c) child_name child_age child_gender child_location)\<rparr>)"
| message:
    "primary m c (c\<lparr>the_app := snd (add_message m now (the_app c) history msg)\<rparr>)"
| reply:
    "primary m c (c\<lparr>the_app := fst (snd (bot_response chat (the_app c) history))\<rparr>)"
| report:
    "primary m c (c\<lparr>the_app := fst (snd (generate_comprehensive_report m clk chat validate cb (the_app c)))\<rparr>)"
| push:
    "push_report_to_care_bridge m post base_url (the_app c) = (res, a, es)
       \<Longrightarrow> primary m c \<lparr>the_app = a, pollers = pollers c @ spawned es\<rparr>"
| start:
    "start_response_polling (the_app c) = (a, es)
       \<Longrightarrow> primary m c \<lparr>the_app = a, pollers = pollers c @ spawned es\<rparr>"
| clear:
    "primary m c (c\<lparr>the_app := clear_conversation (the_app c)\<rparr>)"

text \<open>A turn of one of the polling threads.\<close>

inductive poll_step :: "str_methods \<Rightarrow> session \<Rightarrow> session \<Rightarrow> bool" for m where
  poll:
    "i < length (pollers c) \<Longrightarrow> poll_turn m outcome (the_app c) (pollers c ! i) = (a, r)
       \<Longrightarrow> poll_step m c \<lparr>the_app = a, pollers = update_poller i r (pollers c)\<rparr>"

definition step :: "str_methods \<Rightarrow> session \<Rightarrow> session \<Rightarrow> bool" where
  "step m c c' = (primary m c c' \<or> poll_step m c c')"

inductive reachable :: "str_methods \<Rightarrow> session \<Rightarrow> bool" for m where
  initial: "reachable m \<lparr>the_app = init_app uuid4 now supabase_url supabase_key, pollers = []\<rparr>"
| after: "reachable m c \<Longrightarrow> step m c c' \<Longrightarrow> reachable m c'"

section \<open>Notions used in the properties\<close>

text \<open>A query that brings no reply: it raises, or it returns no row.\<close>

definition no_result :: "query_outcome \<Rightarrow> bool" where
  "no_result outcome = (case outcome of QueryRaises \<Rightarrow> True | Rows rows \<Rightarrow> rows = [])"

text \<open>The number of lookup queries in a list of effects, and the seconds waited.\<close>

definition queries :: "effect list \<Rightarrow> nat" where
  "queries es = length (filter (\<lambda>e. case e of Query r \<Rightarrow> True | _ \<Rightarrow> False) es)"

definition waited :: "effect list \<Rightarrow> nat" where
  "waited es = sum_list (map (\<lambda>e. case e of Sleep n \<Rightarrow> n | _ \<Rightarrow> 0) es)"

definition posts :: "effect list \<Rightarrow> nat" where
  "posts es = length (filter (\<lambda>e. case e of HttpPost r \<Rightarrow> True | _ \<Rightarrow> False) es)"

text \<open>
  The application object a polling thread leaves behind when it runs alone from the
  counter \<open>c\<close>: the loop, then the statement after it.
\<close>

definition thread_result :: "str_methods \<Rightarrow> (nat \<Rightarrow> query_outcome) \<Rightarrow> app \<Rightarrow> nat \<Rightarrow> app" where
  "thread_result m store s c =
     (case poll_loop m store s c [] of (s1, c1, tr1) \<Rightarrow> stop_after_max s1 c1)"

text \<open>
  The structured call fails: the request raises, or its answer does not validate.
\<close>

definition structured_call_fails ::
    "(chat_request \<Rightarrow> string option) \<Rightarrow> (string \<Rightarrow> assessment_data option) \<Rightarrow> app \<Rightarrow> bool" where
  "structured_call_fails chat model_validate_json self =
     (case chat (StructuredChat (assessment_prompt (child_info (report_data self)))) of
        None \<Rightarrow> True
      | Some response_content \<Rightarrow> model_validate_json response_content = None)"

text \<open>
  The record the synthesis ends with: the validated answer of the model, or, when the
  call fails, the record of before with the fallback score and indicators.
\<close>

definition synthesized ::
    "(chat_request \<Rightarrow> string option) \<Rightarrow> (string \<Rightarrow> assessment_data option) \<Rightarrow> app
       \<Rightarrow> assessment_data" where
  "synthesized chat model_validate_json self =
     (let fallback = (assessment_data (report_data self))
                       \<lparr>severity_score := 6,
                        risk_indicators := [''sleep disturbances'', ''behavioral changes'', ''anxiety'']\<rparr>
      in case chat (StructuredChat (assessment_prompt (child_info (report_data self)))) of
           None \<Rightarrow> fallback
         | Some response_content \<Rightarrow>
             (case model_validate_json response_content of
                None \<Rightarrow> fallback
              | Some assessment \<Rightarrow> assessment))"

text \<open>
  The invariant of the coordinator: the flag is set only with a client configured, it
  is set exactly when a polling thread is alive, and there is at most one such thread.
\<close>

definition coordinator_inv :: "session \<Rightarrow> bool" where
  "coordinator_inv c =
     ((polling_active (the_app c) \<longrightarrow> supabase (the_app c)) \<and>
      (polling_active (the_app c) \<longleftrightarrow> pollers c \<noteq> []) \<and>
      length (pollers c) \<le> 1)"

section \<open>Sessions to compute with\<close>

text \<open>
  A session of the application: created with both credentials, onboarded for a child in
  Gaza, one text turn, then a push which the platform answers with status 201 and the
  identifier 17. The texts are ASCII, so the ASCII case mappings are the ones of the
  language.
\<close>

definition fresh_app :: app where
  "fresh_app =
     init_app ''9b2e4c1a-7d3f-4e8a-b6c5-1f0a2d3e4b5c'' ''2025-03-01T10:00:00''
       (Some ''https://project.supabase.co'') (Some ''anon-key'')"

definition onboarded_app :: app where
  "onboarded_app = snd (complete_onboarding ascii fresh_app ''Sam'' 8 ''Female'' ''Gaza'')"

definition fixed_clock :: "nat \<Rightarrow> string" where
  "fixed_clock k = ''2025-03-01T10:05:00''"

definition chatted_app :: app where
  "chatted_app =
     snd (add_message ascii fixed_clock onboarded_app []
            \<lparr>files = [], msg_text = ''He cannot sleep''\<rparr>)"

text \<open>The same session with another text turn.\<close>

definition other_chatted_app :: app where
  "other_chatted_app =
     snd (add_message ascii fixed_clock onboarded_app []
            \<lparr>files = [], msg_text = ''She stopped talking''\<rparr>)"

definition care_bridge :: string where
  "care_bridge = ''https://care-bridge-platform-7vs1.vercel.app''"

definition post_created :: "http_request \<Rightarrow> http_outcome" where
  "post_created request =
     Response \<lparr>status_code = 201,
               body_text = ''{'' @ [CHR 0x22] @ ''id'' @ [CHR 0x22] @ '': 17}'',
               json = Inr (JsonObject (Some (PInt 17)))\<rparr>"

definition post_created_without_id :: "http_request \<Rightarrow> http_outcome" where
  "post_created_without_id request =
     Response \<lparr>status_code = 201, body_text = ''{}'', json = Inr (JsonObject None)\<rparr>"

definition post_created_null_id :: "http_request \<Rightarrow> http_outcome" where
  "post_created_null_id request =
     Response \<lparr>status_code = 201,
               body_text = ''{'' @ [CHR 0x22] @ ''id'' @ [CHR 0x22] @ '': null}'',
               json = Inr (JsonObject (Some PNone))\<rparr>"

definition post_created_zero_id :: "http_request \<Rightarrow> http_outcome" where
  "post_created_zero_id request =
     Response \<lparr>status_code = 201,
               body_text = ''{'' @ [CHR 0x22] @ ''id'' @ [CHR 0x22] @ '': 0}'',
               json = Inr (JsonObject (Some (PInt 0)))\<rparr>"

definition post_created_list :: "http_request \<Rightarrow> http_outcome" where
  "post_created_list request =
     Response \<lparr>status_code = 201, body_text = ''[]'', json = Inr (JsonOther ''list'')\<rparr>"

definition post_server_error :: "http_request \<Rightarrow> http_outcome" where
  "post_server_error request =
     Response \<lparr>status_code = 500, body_text = ''Internal Server Error'',
               json = Inl (RequestException ''Expecting value: line 1 column 1 (char 0)'')\<rparr>"

definition post_refused :: "http_request \<Rightarrow> http_outcome" where
  "post_refused request = PostRaises ConnectionError"

definition submitted_app :: app where
  "submitted_app =
     fst (snd (push_report_to_care_bridge ascii post_created care_bridge chatted_app))"

definition polling_session :: session where
  "polling_session = \<lparr>the_app = submitted_app, pollers = [0]\<rparr>"

text \<open>
  The polling session after a second push, answered with status 201 and a null
  identifier.
\<close>

definition overwritten_session :: session where
  "overwritten_session =
     \<lparr>the_app = fst (snd (push_report_to_care_bridge ascii post_created_null_id care_bridge
                            submitted_app)),
      pollers = [0]\<rparr>"

definition store_down :: "nat \<Rightarrow> query_outcome" where
  "store_down k = QueryRaises"

definition chat_down :: "chat_request \<Rightarrow> string option" where
  "chat_down request = None"

definition validate_none :: "string \<Rightarrow> assessment_data option" where
  "validate_none response_content = None"

text \<open>A model client that answers, and a validation that accepts the answer.\<close>

definition sample_assessment :: assessment_data where
  "sample_assessment =
     \<lparr>parent_observations = ''Sleep problems reported.'',
      ai_analysis = ''Possible acute stress.'',
      severity_score = 7,
      risk_indicators = [''nightmares''],
      cultural_context = ''Displacement.''\<rparr>"

definition chat_answers :: "chat_request \<Rightarrow> string option" where
  "chat_answers request = Some ''assessment''"

definition validate_sample :: "string \<Rightarrow> assessment_data option" where
  "validate_sample response_content = Some sample_assessment"

definition some_clock :: report_clock where
  "some_clock =
     \<lparr>generated_at = ''March 01, 2025 at 10:10'', assessment_date = ''March 01, 2025'',
      generated_iso = ''2025-03-01T10:10:00.000000'', next_review = ''March 01, 2025''\<rparr>"

text \<open>
  Three rows of the lookup store: a reply, a later reply, and a reply whose urgency
  level is null.
\<close>

definition reply_row :: specialist_row where
  "reply_row =
     [(''response_date'', PStr ''2025-03-02T08:30:00.123456+00:00''),
      (''psychologist_id'', PStr ''psy-4''),
      (''urgency_level'', PStr ''high''),
      (''psychologist_notes'', PStr ''Signs of acute stress.''),
      (''recommendations'',
         PDict (''{'' @ [CHR 0x27] @ ''follow_up'' @ [CHR 0x27] @ '': ''
                  @ [CHR 0x27] @ ''within 3 days'' @ [CHR 0x27] @ ''}'')
               [(''follow_up'', ''within 3 days'')])]"

definition later_row :: specialist_row where
  "later_row =
     [(''response_date'', PStr ''2025-03-05T16:00:00''),
      (''psychologist_id'', PInt 9),
      (''urgency_level'', PStr ''low''),
      (''psychologist_notes'', PStr ''Improving.''),
      (''recommendations'', PStr ''Keep the routine.'')]"

definition null_urgency_row :: specialist_row where
  "null_urgency_row =
     [(''response_date'', PStr ''2025-03-02T08:30:00''),
      (''psychologist_id'', PStr ''psy-4''),
      (''urgency_level'', PNone),
      (''psychologist_notes'', PStr ''Signs of acute stress.''),
      (''recommendations'', PStr ''See the child this week.'')]"

text \<open>
  The polling session after the thread has found \<open>reply_row\<close>; that session after a
  second push, answered with status 201; and the latter after the new thread has found
  \<open>later_row\<close>.
\<close>

definition replied_session :: session where
  "replied_session =
     \<lparr>the_app = submitted_app\<lparr>specialist_response := Some reply_row, polling_active := False\<rparr>,
      pollers = []\<rparr>"

definition repolling_session :: session where
  "repolling_session =
     \<lparr>the_app = submitted_app\<lparr>specialist_response := Some reply_row\<rparr>, pollers = [0]\<rparr>"

definition replied_again_session :: session where
  "replied_again_session =
     \<lparr>the_app = submitted_app\<lparr>specialist_response := Some later_row, polling_active := False\<rparr>,
      pollers = []\<rparr>"

text \<open>The polling session after the thread has found \<open>null_urgency_row\<close>.\<close>

definition null_urgency_session :: session where
  "null_urgency_session =
     \<lparr>the_app = submitted_app\<lparr>specialist_response := Some null_urgency_row\<rparr>, pollers = [1]\<rparr>"

section \<open>Facts about the operations\<close>

subsection \<open>What each operation leaves alone\<close>

lemma complete_onboarding_coordinator:
  "polling_active (snd (complete_onboarding m s n a g l)) = polling_active s"
  "submitted_report_id (snd (complete_onboarding m s n a g l)) = submitted_report_id s"
  "supabase (snd (complete_onboarding m s n a g l)) = supabase s"
  "specialist_response (snd (complete_onboarding m s n a g l)) = specialist_response s"
  by (simp_all add: complete_onboarding_def Let_def)

lemma add_message_coordinator:
  "polling_active (snd (add_message m now s h msg)) = polling_active s"
  "submitted_report_id (snd (add_message m now s h msg)) = submitted_report_id s"
  "supabase (snd (add_message m now s h msg)) = supabase s"
  "specialist_response (snd (add_message m now s h msg)) = specialist_response s"
  by (simp_all add: add_message_def Let_def split: prod.splits)

lemma bot_response_coordinator:
  "polling_active (fst (snd (bot_response chat s h))) = polling_active s"
  "submitted_report_id (fst (snd (bot_response chat s h))) = submitted_report_id s"
  "supabase (fst (snd (bot_response chat s h))) = supabase s"
  "specialist_response (fst (snd (bot_response chat s h))) = specialist_response s"
  by (simp_all add: bot_response_def Let_def split: prod.splits option.splits)

lemma structured_assessment_coordinator:
  "structured_assessment chat validate cb s = Inr (s', es) \<Longrightarrow>
     polling_active s' = polling_active s \<and> submitted_report_id s' = submitted_report_id s \<and>
     supabase s' = supabase s \<and> specialist_response s' = specialist_response s"
  by (auto simp: structured_assessment_def Let_def split: option.splits)

lemma fallback_assessment_coordinator:
  "polling_active (fallback_assessment s) = polling_active s"
  "submitted_report_id (fallback_assessment s) = submitted_report_id s"
  "supabase (fallback_assessment s) = supabase s"
  "specialist_response (fallback_assessment s) = specialist_response s"
  by (simp_all add: fallback_assessment_def Let_def)

lemma generate_coordinator:
  "polling_active (fst (snd (generate_comprehensive_report m clk chat validate cb s))) = polling_active s"
  "submitted_report_id (fst (snd (generate_comprehensive_report m clk chat validate cb s))) = submitted_report_id s"
  "supabase (fst (snd (generate_comprehensive_report m clk chat validate cb s))) = supabase s"
  "specialist_response (fst (snd (generate_comprehensive_report m clk chat validate cb s))) = specialist_response s"
  by (auto simp: generate_comprehensive_report_def Let_def fallback_assessment_coordinator
      split: prod.splits sum.splits dest: structured_assessment_coordinator)

lemma clear_conversation_keeps:
  "polling_active (clear_conversation s) = polling_active s"
  "submitted_report_id (clear_conversation s) = submitted_report_id s"
  "supabase (clear_conversation s) = supabase s"
  "specialist_response (clear_conversation s) = specialist_response s"
  "ollama_conversation (clear_conversation s) = ollama_conversation s"
  "is_onboarded (clear_conversation s) = is_onboarded s"
  "child_info (report_data (clear_conversation s)) = child_info (report_data s)"
  "conversation_history (report_data (clear_conversation s)) = []"
  by (simp_all add: clear_conversation_def Let_def)

lemmas coordinator_frame =
  complete_onboarding_coordinator add_message_coordinator bot_response_coordinator
  generate_coordinator clear_conversation_keeps

subsection \<open>Starting the poll, pushing, and one turn of the polling thread\<close>

lemma start_cases:
  "start_response_polling s = (a, es) \<Longrightarrow>
     (a = s \<and> es = []) \<or>
     (\<not> polling_active s \<and> supabase s \<and> py_truthy (submitted_report_id s) \<and>
      a = s\<lparr>polling_active := True\<rparr> \<and> es = [ThreadStart])"
  by (auto simp: start_response_polling_def split: if_splits)

lemma push_cases:
  "push_report_to_care_bridge m post base s = (res, a, es) \<Longrightarrow>
     (a = s \<and> spawned es = []) \<or>
     (\<exists>i. a = s\<lparr>submitted_report_id := i\<rparr> \<and> spawned es = []) \<or>
     (\<exists>i. \<not> polling_active s \<and> supabase s \<and> py_truthy i \<and>
        a = s\<lparr>submitted_report_id := i, polling_active := True\<rparr> \<and> spawned es = [0])"
  by (auto simp: push_report_to_care_bridge_def Let_def spawned_def
       split: if_splits http_outcome.splits sum.splits prod.splits json_body.splits
       dest!: start_cases)

lemma poll_turn_cases:
  "poll_turn m outcome s k = (a, r) \<Longrightarrow>
     (r = Some (Suc k) \<and> polling_active s \<and> polling_active a \<and>
      submitted_report_id a = submitted_report_id s \<and> supabase a = supabase s) \<or>
     (r = None \<and> \<not> polling_active a \<and> submitted_report_id a = submitted_report_id s \<and>
      supabase a = supabase s)"
  by (auto simp: poll_turn_def poll_body_def stop_after_max_def Let_def
       split: if_splits query_outcome.splits list.splits option.splits)

lemma poll_turn_reply:
  "poll_turn m outcome s k = (a, r) \<Longrightarrow> specialist_response s \<noteq> None
     \<Longrightarrow> specialist_response a \<noteq> None"
  by (auto simp: poll_turn_def poll_body_def stop_after_max_def Let_def
       split: if_splits query_outcome.splits list.splits option.splits)

lemma push_reply:
  "push_report_to_care_bridge m post base s = (res, a, es)
     \<Longrightarrow> specialist_response a = specialist_response s"
  by (drule push_cases) auto

lemma start_reply:
  "start_response_polling s = (a, es) \<Longrightarrow> specialist_response a = specialist_response s"
  by (drule start_cases) auto

lemma handle_exn_fails: "fst (handle_exn e) = False"
  by (cases e) (simp_all add: handle_exn_def)

subsection \<open>The invariant of the coordinator\<close>

lemma primary_inv: "primary m c c' \<Longrightarrow> coordinator_inv c \<Longrightarrow> coordinator_inv c'"
proof (induction rule: primary.induct)
  case (push post base_url c res a es)
  from push_cases[OF push.hyps] push.prems show ?case
    by (auto simp: coordinator_inv_def)
next
  case (start c a es)
  from start_cases[OF start.hyps] start.prems show ?case
    by (auto simp: coordinator_inv_def spawned_def)
qed (simp_all add: coordinator_inv_def coordinator_frame)

lemma poll_step_inv: "poll_step m c c' \<Longrightarrow> coordinator_inv c \<Longrightarrow> coordinator_inv c'"
proof (induction rule: poll_step.induct)
  case (poll i c outcome a r)
  from poll.prems poll.hyps(1)
  have one: "pollers c = [pollers c ! i]" "i = 0" "polling_active (the_app c)"
    by (auto simp: coordinator_inv_def length_Suc_conv le_Suc_eq)
  from poll_turn_cases[OF poll.hyps(2)] one poll.prems show ?case
    by (auto simp: coordinator_inv_def update_poller_def)
qed

lemma step_inv: "step m c c' \<Longrightarrow> coordinator_inv c \<Longrightarrow> coordinator_inv c'"
  by (auto simp: step_def dest: primary_inv poll_step_inv)

lemma reachable_inv: "reachable m c \<Longrightarrow> coordinator_inv c"
proof (induction rule: reachable.induct)
  case (initial uuid4 now supabase_url supabase_key)
  show ?case by (simp add: coordinator_inv_def init_app_def)
next
  case (after c c')
  then show ?case by (blast intro: step_inv)
qed

lemma after_primary: "reachable m c \<Longrightarrow> primary m c c' \<Longrightarrow> reachable m c'"
  by (rule reachable.after) (auto simp: step_def)

lemma after_poll_step: "reachable m c \<Longrightarrow> poll_step m c c' \<Longrightarrow> reachable m c'"
  by (rule reachable.after) (auto simp: step_def)

text \<open>A step that raises the flag ends with an identifier that passes the test of truth.\<close>

lemma primary_raises_flag:
  "primary m c c' \<Longrightarrow> \<not> polling_active (the_app c) \<Longrightarrow> polling_active (the_app c')
     \<Longrightarrow> py_truthy (submitted_report_id (the_app c'))"
proof (induction rule: primary.induct)
  case (push post base_url c res a es)
  from push_cases[OF push.hyps] push.prems show ?case by auto
next
  case (start c a es)
  from start_cases[OF start.hyps] start.prems show ?case by auto
qed (simp_all add: coordinator_frame)

lemma poll_step_raises_flag:
  "poll_step m c c' \<Longrightarrow> \<not> polling_active (the_app c) \<Longrightarrow> polling_active (the_app c')
     \<Longrightarrow> py_truthy (submitted_report_id (the_app c'))"
proof (induction rule: poll_step.induct)
  case (poll i c outcome a r)
  from poll_turn_cases[OF poll.hyps(2)] poll.prems show ?case by auto
qed

subsection \<open>A stored reply stays until a polling turn stores another\<close>

lemma primary_same_reply:
  "primary m c c' \<Longrightarrow> specialist_response (the_app c') = specialist_response (the_app c)"
  by (induction rule: primary.induct) (auto simp: coordinator_frame dest: push_reply start_reply)

lemma step_keeps_reply:
  "step m c c' \<Longrightarrow> specialist_response (the_app c) \<noteq> None
     \<Longrightarrow> specialist_response (the_app c') \<noteq> None"
  unfolding step_def
proof (elim disjE)
  assume "primary m c c'" "specialist_response (the_app c) \<noteq> None"
  then show ?thesis by (simp add: primary_same_reply)
next
  assume "poll_step m c c'" "specialist_response (the_app c) \<noteq> None"
  then show ?thesis by (induction rule: poll_step.induct) (auto dest: poll_turn_reply)
qed

lemma steps_keep_reply:
  "rtranclp (step m) c c' \<Longrightarrow> specialist_response (the_app c) \<noteq> None
     \<Longrightarrow> specialist_response (the_app c') \<noteq> None"
  by (induction rule: rtranclp_induct) (auto dest: step_keeps_reply)

subsection \<open>The polling loop\<close>

lemma poll_body_no_result:
  "no_result outcome \<Longrightarrow>
     poll_body m outcome s c = (s, Suc c, False, [Query (submitted_report_id s), Sleep 5])"
  by (auto simp: poll_body_def no_result_def Let_def split: query_outcome.splits list.splits)

lemma poll_loop_stop:
  "\<not> (polling_active s \<and> c < max_polls) \<Longrightarrow> poll_loop m store s c tr = (s, c, tr)"
  by (subst poll_loop.simps) auto

lemma poll_loop_break:
  "polling_active s \<Longrightarrow> c < max_polls \<Longrightarrow> poll_body m (store c) s c = (s1, c1, True, es)
     \<Longrightarrow> poll_loop m store s c tr = (s1, c1, tr @ es)"
  by (subst poll_loop.simps) simp

lemma poll_loop_continue:
  "polling_active s \<Longrightarrow> c < max_polls \<Longrightarrow> poll_body m (store c) s c = (s1, c1, False, es)
     \<Longrightarrow> poll_loop m store s c tr = poll_loop m store s1 c1 (tr @ es)"
  by (subst poll_loop.simps) simp

lemma poll_loop_no_result:
  assumes "polling_active s"
    and "\<And>k. c \<le> k \<Longrightarrow> k < max_polls \<Longrightarrow> no_result (store k)"
    and "n = max_polls - c" and "c \<le> max_polls"
  shows "poll_loop m store s c tr =
           (s, max_polls, tr @ concat (replicate n [Query (submitted_report_id s), Sleep 5]))"
  using assms
proof (induction n arbitrary: c tr)
  case 0
  then have "c = max_polls" by simp
  then show ?case by (simp add: poll_loop_stop)
next
  case (Suc n)
  then have lt: "c < max_polls" by simp
  have nr: "no_result (store c)" using Suc.prems(2)[of c] lt by simp
  have unfold: "poll_loop m store s c tr =
      poll_loop m store s (Suc c) (tr @ [Query (submitted_report_id s), Sleep 5])"
    using Suc.prems(1) lt by (simp add: poll_loop_continue poll_body_no_result[OF nr])
  have "poll_loop m store s (Suc c) (tr @ [Query (submitted_report_id s), Sleep 5]) =
      (s, max_polls, (tr @ [Query (submitted_report_id s), Sleep 5]) @
         concat (replicate n [Query (submitted_report_id s), Sleep 5]))"
    using Suc.prems lt by (intro Suc.IH) auto
  with unfold show ?case by simp
qed

lemma clear_flag_idle: "\<not> polling_active s \<Longrightarrow> s\<lparr>polling_active := False\<rparr> = s"
  by (cases s) simp

lemma queries_append: "queries (xs @ ys) = queries xs + queries ys"
  by (simp add: queries_def)

lemma queries_rounds: "queries (concat (replicate n [Query r, Sleep w])) = n"
  by (induction n) (simp_all add: queries_def)

lemma waited_rounds: "waited (concat (replicate n [Query r, Sleep w])) = n * w"
  by (induction n) (simp_all add: waited_def)

lemma poll_body_queries:
  "poll_body m outcome s c = (s', c', b, es)
     \<Longrightarrow> queries es = 1 \<and> (c' = Suc c \<and> \<not> b \<or> (b \<and> c' = c))"
  by (auto simp: poll_body_def Let_def queries_def
       split: query_outcome.splits list.splits option.splits)

text \<open>Whatever the store answers, the loop makes no more queries than the counter allows.\<close>

lemma poll_loop_queries:
  "poll_loop m store s c tr = (s', c', tr') \<Longrightarrow> queries tr' \<le> queries tr + (max_polls - c)"
proof (induction "max_polls - c" arbitrary: s c tr)
  case 0
  then have "\<not> (polling_active s \<and> c < max_polls)" by simp
  with "0.prems" show ?case by (simp add: poll_loop_stop)
next
  case (Suc n)
  show ?case
  proof (cases "polling_active s \<and> c < max_polls")
    case False
    with Suc.prems show ?thesis by (simp add: poll_loop_stop)
  next
    case True
    obtain s1 c1 b es where pb: "poll_body m (store c) s c = (s1, c1, b, es)"
      by (metis prod_cases4)
    from poll_body_queries[OF pb]
    have q: "queries es = 1" and cc: "c1 = Suc c \<and> \<not> b \<or> (b \<and> c1 = c)" by auto
    show ?thesis
    proof (cases b)
      case True
      with \<open>polling_active s \<and> c < max_polls\<close> pb Suc.prems q show ?thesis
        by (auto simp: poll_loop_break queries_append)
    next
      case False
      with cc have c1: "c1 = Suc c" by simp
      have n: "n = max_polls - c1" using Suc.hyps(2) c1 by simp
      from False True pb Suc.prems have "poll_loop m store s1 c1 (tr @ es) = (s', c', tr')"
        by (simp add: poll_loop_continue)
      from Suc.hyps(1)[OF n this]
      have "queries tr' \<le> queries (tr @ es) + (max_polls - c1)" .
      with q c1 True show ?thesis by (auto simp: queries_append)
    qed
  qed
qed

lemma poll_for_response_at_most_120: "queries (snd (poll_for_response m store s)) \<le> 120"
  using poll_loop_queries[of m store s 0 "[]"]
  by (auto simp: poll_for_response_def queries_def max_polls_def split: prod.splits)

lemma poll_loop_trace:
  "poll_loop m store s c tr =
     (case poll_loop m store s c [] of (s1, c1, tr1) \<Rightarrow> (s1, c1, tr @ tr1))"
proof (induction "max_polls - c" arbitrary: s c tr)
  case 0
  then have "\<not> (polling_active s \<and> c < max_polls)" by simp
  then show ?case by (simp add: poll_loop_stop)
next
  case (Suc n)
  show ?case
  proof (cases "polling_active s \<and> c < max_polls")
    case False
    then show ?thesis by (simp add: poll_loop_stop)
  next
    case True
    obtain s1 c1 b es where pb: "poll_body m (store c) s c = (s1, c1, b, es)"
      by (metis prod_cases4)
    show ?thesis
    proof (cases b)
      case True
      with \<open>polling_active s \<and> c < max_polls\<close> pb show ?thesis
        by (simp add: poll_loop_break)
    next
      case False
      with poll_body_queries[OF pb] have c1: "c1 = Suc c" by simp
      have n: "n = max_polls - c1" using Suc.hyps(2) c1 by simp
      have a: "poll_loop m store s c tr = poll_loop m store s1 c1 (tr @ es)"
        and b: "poll_loop m store s c [] = poll_loop m store s1 c1 es"
        using True pb False by (simp_all add: poll_loop_continue)
      have "poll_loop m store s1 c1 (tr @ es) =
          (case poll_loop m store s1 c1 [] of (s2, c2, tr2) \<Rightarrow> (s2, c2, (tr @ es) @ tr2))"
        by (rule Suc.hyps(1)[OF n])
      moreover have "poll_loop m store s1 c1 es =
          (case poll_loop m store s1 c1 [] of (s2, c2, tr2) \<Rightarrow> (s2, c2, es @ tr2))"
        by (rule Suc.hyps(1)[OF n])
      ultimately show ?thesis
        unfolding a b by (simp split: prod.splits)
    qed
  qed
qed

text \<open>
  The turns of the transition system are the loop: a thread that runs alone, turn after
  turn, leaves what \<open>poll_for_response\<close> leaves.
\<close>

lemma poll_turn_end:
  assumes "poll_turn m (store c) s c = (a, None)"
  shows "thread_result m store s c = a"
proof (cases "polling_active s \<and> c < max_polls")
  case False
  with assms show ?thesis
    by (simp add: thread_result_def poll_loop_stop poll_turn_def)
next
  case True
  obtain s1 c1 b es where pb: "poll_body m (store c) s c = (s1, c1, b, es)"
    by (metis prod_cases4)
  with assms True have b: "b" and a: "a = stop_after_max s1 c1"
    by (auto simp: poll_turn_def split: if_splits)
  show ?thesis
    using True pb b a by (simp add: thread_result_def poll_loop_break)
qed

lemma poll_turn_continue:
  assumes "poll_turn m (store c) s c = (a, Some c')"
  shows "thread_result m store s c = thread_result m store a c'"
proof -
  from assms have t: "polling_active s \<and> c < max_polls"
    by (auto simp: poll_turn_def split: if_splits)
  obtain s1 c1 b es where pb: "poll_body m (store c) s c = (s1, c1, b, es)"
    by (metis prod_cases4)
  with assms t have nb: "\<not> b" and a: "a = s1" "c' = c1"
    by (auto simp: poll_turn_def split: if_splits)
  have "poll_loop m store s c [] = poll_loop m store s1 c1 es"
    using t pb nb by (simp add: poll_loop_continue)
  also have "\<dots> = (case poll_loop m store s1 c1 [] of (s2, c2, tr2) \<Rightarrow> (s2, c2, es @ tr2))"
    by (rule poll_loop_trace)
  finally show ?thesis
    by (simp add: thread_result_def a split: prod.splits)
qed

lemma poll_for_response_thread:
  "fst (poll_for_response m store s) = thread_result m store s 0"
  by (simp add: poll_for_response_def thread_result_def split: prod.splits)

subsection \<open>Report synthesis\<close>

lemma structured_fails:
  "structured_call_fails chat validate s
     \<Longrightarrow> \<exists>es. structured_assessment chat validate cb s = Inl es"
  by (auto simp: structured_call_fails_def structured_assessment_def Let_def split: option.splits)

lemma whole_record:
  "ad\<lparr>parent_observations := parent_observations (a :: assessment_data),
      ai_analysis := ai_analysis a, severity_score := severity_score a,
      risk_indicators := risk_indicators a, cultural_context := cultural_context a\<rparr> = a"
  by (cases a, cases ad) simp

text \<open>
  What the synthesis does once its two checks have passed, whatever the buffer holds.
\<close>

lemma generate_passed:
  assumes "is_onboarded s" and "ollama_conversation s \<noteq> []"
  shows "fst (generate_comprehensive_report m clk chat validate cb s) =
           format_report m clk (fst (snd (generate_comprehensive_report m clk chat validate cb s)))"
    and "fst (snd (generate_comprehensive_report m clk chat validate cb s)) =
           s\<lparr>report_data := (report_data s)\<lparr>assessment_data := synthesized chat validate s\<rparr>\<rparr>"
    and "ChatRequest (StructuredChat (assessment_prompt (child_info (report_data s))))
           \<in> set (snd (snd (generate_comprehensive_report m clk chat validate cb s)))"
  using assms
  by (auto simp: generate_comprehensive_report_def structured_assessment_def synthesized_def
      fallback_assessment_def fallback_indicators_def whole_record Let_def
      split: sum.splits prod.splits option.splits)

text \<open>Neither the template nor the request reads the model-facing buffer.\<close>

lemma format_report_reads:
  "report_data s = report_data s' \<Longrightarrow> format_report m clk s = format_report m clk s'"
  by (simp add: format_report_def)

lemma structured_assessment_buffer:
  "structured_assessment chat validate cb (s\<lparr>ollama_conversation := conv\<rparr>) =
     (case structured_assessment chat validate cb s of
        Inl es \<Rightarrow> Inl es
      | Inr (s1, es) \<Rightarrow> Inr (s1\<lparr>ollama_conversation := conv\<rparr>, es))"
  by (simp add: structured_assessment_def Let_def split: option.splits)

lemma generate_buffer:
  assumes "is_onboarded s" and "ollama_conversation s \<noteq> []" and "conv \<noteq> []"
  shows "generate_comprehensive_report m clk chat validate cb (s\<lparr>ollama_conversation := conv\<rparr>) =
           (fst (generate_comprehensive_report m clk chat validate cb s),
            (fst (snd (generate_comprehensive_report m clk chat validate cb s)))
              \<lparr>ollama_conversation := conv\<rparr>,
            snd (snd (generate_comprehensive_report m clk chat validate cb s)))"
  using assms
  by (auto simp: generate_comprehensive_report_def structured_assessment_buffer Let_def
      fallback_assessment_def split: sum.splits prod.splits
      intro!: format_report_reads app.equality)

lemma push_posts_once:
  "is_onboarded s \<Longrightarrow> conversation_history (report_data s) \<noteq> []
     \<Longrightarrow> posts (snd (snd (push_report_to_care_bridge m post base_url s))) = 1"
  by (auto simp: push_report_to_care_bridge_def Let_def posts_def start_response_polling_def
       split: http_outcome.splits sum.splits prod.splits json_body.splits)

lemma format_report_head: "hd (format_report m clk s) = CHR ''#''"
  by (simp add: format_report_def Let_def)

lemma format_report_not_instruction:
  "format_report m clk s \<noteq> msg_conversation_before_report"
  using format_report_head[of m clk s]
  by (auto simp: msg_conversation_before_report_def)

subsection \<open>The sessions to compute with\<close>

lemma ascii_simps:
  "lower ascii = map lower_char" "upper ascii = map upper_char" "title ascii = title_from False"
  by (simp_all add: ascii_def)

lemma fresh_app_simps:
  "is_onboarded fresh_app = False"
  "conversation_history (report_data fresh_app) = []"
  "specialist_response fresh_app = None"
  "ollama_conversation fresh_app = []"
  by (simp_all add: fresh_app_def init_app_def)

lemma onboarded_app_simps:
  "is_onboarded onboarded_app"
  "ollama_conversation onboarded_app = []"
  "conversation_history (report_data onboarded_app) = []"
  "parent_observations (assessment_data (report_data onboarded_app)) = []"
  "ai_analysis (assessment_data (report_data onboarded_app)) = []"
  "supabase onboarded_app"
  "polling_active onboarded_app = False"
  "submitted_report_id onboarded_app = PNone"
  "specialist_response onboarded_app = None"
  by (simp_all add: onboarded_app_def fresh_app_def init_app_def complete_onboarding_def Let_def
      truthy_def truthy_opt_def)

lemma cultural_context_gaza:
  "generate_cultural_context ascii ''Gaza'' =
     ''Assessment conducted considering ongoing conflict exposure and displacement trauma''"
  by code_simp

lemma onboarded_app_context:
  "cultural_context (assessment_data (report_data onboarded_app)) =
     ''Assessment conducted considering ongoing conflict exposure and displacement trauma''"
  by (simp add: onboarded_app_def fresh_app_def init_app_def complete_onboarding_def Let_def
      truthy_def cultural_context_gaza)

lemma chatted_app_simps:
  "is_onboarded chatted_app"
  "ollama_conversation chatted_app = [\<lparr>msg_role = User, msg_content = ''He cannot sleep''\<rparr>]"
  "conversation_history (report_data chatted_app) =
     [\<lparr>role = User, content = Text ''He cannot sleep''\<rparr>]"
  "supabase chatted_app"
  "polling_active chatted_app = False"
  "submitted_report_id chatted_app = PNone"
  "specialist_response chatted_app = None"
  "ai_analysis (assessment_data (report_data chatted_app)) = []"
  "cultural_context (assessment_data (report_data chatted_app)) =
     ''Assessment conducted considering ongoing conflict exposure and displacement trauma''"
  by (simp_all add: chatted_app_def add_message_def Let_def truthy_def onboarded_app_simps
      onboarded_app_context)

lemma other_chatted_app_eq:
  "other_chatted_app =
     chatted_app\<lparr>report_data := report_data other_chatted_app,
                 ollama_conversation := [\<lparr>msg_role = User, msg_content = ''She stopped talking''\<rparr>]\<rparr>"
  by (simp add: other_chatted_app_def chatted_app_def add_message_def Let_def truthy_def
      onboarded_app_simps)

lemma cleared_apps_agree:
  "clear_conversation other_chatted_app =
     (clear_conversation chatted_app)
       \<lparr>ollama_conversation := [\<lparr>msg_role = User, msg_content = ''She stopped talking''\<rparr>]\<rparr>"
  by (simp add: other_chatted_app_def chatted_app_def add_message_def Let_def truthy_def
      onboarded_app_simps clear_conversation_def)

lemma push_created:
  "push_report_to_care_bridge ascii post_created care_bridge chatted_app =
     ((True, msg_pushed ''17''),
      chatted_app\<lparr>submitted_report_id := PInt 17, polling_active := True\<rparr>,
      [HttpPost (push_request ascii care_bridge chatted_app), ThreadStart])"
proof -
  have n: "str_int 17 = ''17''" by code_simp
  show ?thesis
    by (simp add: push_report_to_care_bridge_def Let_def chatted_app_simps post_created_def
        start_response_polling_def id_or_unknown_def n)
qed

lemma submitted_app_eq:
  "submitted_app = chatted_app\<lparr>submitted_report_id := PInt 17, polling_active := True\<rparr>"
  by (simp add: submitted_app_def push_created)

lemma submitted_app_simps:
  "is_onboarded submitted_app"
  "conversation_history (report_data submitted_app) =
     [\<lparr>role = User, content = Text ''He cannot sleep''\<rparr>]"
  "supabase submitted_app"
  "polling_active submitted_app"
  "submitted_report_id submitted_app = PInt 17"
  "specialist_response submitted_app = None"
  by (simp_all add: submitted_app_eq chatted_app_simps)

lemma reachable_chatted: "reachable ascii \<lparr>the_app = chatted_app, pollers = []\<rparr>"
proof -
  let ?c0 = "\<lparr>the_app = fresh_app, pollers = []\<rparr>"
  let ?c1 = "\<lparr>the_app = onboarded_app, pollers = []\<rparr>"
  let ?c2 = "\<lparr>the_app = chatted_app, pollers = []\<rparr>"
  have r0: "reachable ascii ?c0" unfolding fresh_app_def by (rule reachable.initial)
  have s1: "primary ascii ?c0 ?c1"
    using primary.onboarding[of ascii ?c0 "''Sam''" 8 "''Female''" "''Gaza''"]
    by (simp add: onboarded_app_def)
  have s2: "primary ascii ?c1 ?c2"
    using primary.message[of ascii ?c1 fixed_clock "[]"
        "\<lparr>files = [], msg_text = ''He cannot sleep''\<rparr>"]
    by (simp add: chatted_app_def)
  from r0 s1 s2 show ?thesis by (blast intro: after_primary)
qed

lemma chatted_starts_polling:
  "primary ascii \<lparr>the_app = chatted_app, pollers = []\<rparr> polling_session"
  using primary.push[of ascii post_created care_bridge "\<lparr>the_app = chatted_app, pollers = []\<rparr>",
      simplified, OF push_created]
  by (simp add: polling_session_def spawned_def submitted_app_eq)

lemma reachable_polling_session: "reachable ascii polling_session"
  using reachable_chatted chatted_starts_polling by (rule after_primary)

lemma push_null_id:
  "push_report_to_care_bridge ascii post_created_null_id care_bridge submitted_app =
     ((True, msg_pushed ''None''), submitted_app\<lparr>submitted_report_id := PNone\<rparr>,
      [HttpPost (push_request ascii care_bridge submitted_app)])"
  by (simp add: push_report_to_care_bridge_def Let_def submitted_app_simps
      post_created_null_id_def start_response_polling_def id_or_unknown_def)

lemma reachable_overwritten_session: "reachable ascii overwritten_session"
proof -
  have "primary ascii polling_session overwritten_session"
    using primary.push[of ascii post_created_null_id care_bridge polling_session]
    by (simp add: polling_session_def overwritten_session_def push_null_id spawned_def)
  with reachable_polling_session show ?thesis by (rule after_primary)
qed

lemma chat_down_fails: "structured_call_fails chat_down validate_none s"
  by (simp add: structured_call_fails_def chat_down_def)

lemma format_items_example:
  "format_items ascii [(''follow_up'', ''within 3 days'')] =
     ''**Follow Up:** within 3 days\<newline>\<newline>''"
  by code_simp

lemma reply_row_renders:
  "format_response ascii reply_row =
     Some (response_template ascii ''high'' ''2025-03-02T08:30:00.123456+00:00'' (PStr ''psy-4'')
             (PStr ''Signs of acute stress.'')
             (PDict (''{'' @ [CHR 0x27] @ ''follow_up'' @ [CHR 0x27] @ '': ''
                       @ [CHR 0x27] @ ''within 3 days'' @ [CHR 0x27] @ ''}'')
                    [(''follow_up'', ''within 3 days'')]))"
  by (simp add: format_response_def text_column_def column_def reply_row_def)

lemma later_row_renders:
  "format_response ascii later_row =
     Some (response_template ascii ''low'' ''2025-03-05T16:00:00'' (PInt 9) (PStr ''Improving.'')
             (PStr ''Keep the routine.''))"
  by (simp add: format_response_def text_column_def column_def later_row_def)

lemma null_urgency_row_raises: "format_response m null_urgency_row = None"
  by (simp add: format_response_def text_column_def column_def null_urgency_row_def)

lemma renderings_differ:
  "format_response ascii reply_row \<noteq> format_response ascii later_row"
  by code_simp

lemma reachable_null_urgency_session: "reachable ascii null_urgency_session"
proof -
  have t: "poll_turn ascii (Rows [null_urgency_row]) submitted_app 0 =
      (submitted_app\<lparr>specialist_response := Some null_urgency_row\<rparr>, Some 1)"
    by (simp add: poll_turn_def poll_body_def max_polls_def submitted_app_simps Let_def
        get_specialist_response_def null_urgency_row_raises)
  have "poll_step ascii polling_session null_urgency_session"
    using poll_step.poll[of 0 polling_session ascii "Rows [null_urgency_row]", simplified]
    by (simp add: polling_session_def null_urgency_session_def t update_poller_def)
  with reachable_polling_session show ?thesis by (rule after_poll_step)
qed

lemma reachable_replied_session: "reachable ascii replied_session"
proof -
  have t: "poll_turn ascii (Rows [reply_row]) submitted_app 0 =
      (submitted_app\<lparr>specialist_response := Some reply_row, polling_active := False\<rparr>, None)"
    by (simp add: poll_turn_def poll_body_def max_polls_def submitted_app_simps Let_def
        get_specialist_response_def reply_row_renders stop_after_max_def)
  have "poll_step ascii polling_session replied_session"
    using poll_step.poll[of 0 polling_session ascii "Rows [reply_row]", simplified]
    by (simp add: polling_session_def replied_session_def t update_poller_def)
  with reachable_polling_session show ?thesis by (rule after_poll_step)
qed

lemma reachable_repolling_session: "reachable ascii repolling_session"
proof -
  have n: "str_int 17 = ''17''" by code_simp
  have p: "push_report_to_care_bridge ascii post_created care_bridge (the_app replied_session) =
      ((True, msg_pushed ''17''), submitted_app\<lparr>specialist_response := Some reply_row\<rparr>,
       [HttpPost (push_request ascii care_bridge (the_app replied_session)), ThreadStart])"
    by (simp add: push_report_to_care_bridge_def Let_def replied_session_def submitted_app_eq
        chatted_app_simps post_created_def start_response_polling_def id_or_unknown_def n)
  have "primary ascii replied_session repolling_session"
    using primary.push[of ascii post_created care_bridge replied_session, OF p]
    by (simp add: replied_session_def repolling_session_def spawned_def)
  with reachable_replied_session show ?thesis by (rule after_primary)
qed

lemma repolling_finds_later_row: "poll_step ascii repolling_session replied_again_session"
proof -
  have t: "poll_turn ascii (Rows [later_row]) (submitted_app\<lparr>specialist_response := Some reply_row\<rparr>) 0 =
      (submitted_app\<lparr>specialist_response := Some later_row, polling_active := False\<rparr>, None)"
    by (simp add: poll_turn_def poll_body_def max_polls_def submitted_app_simps Let_def
        get_specialist_response_def later_row_renders stop_after_max_def)
  show ?thesis
    using poll_step.poll[of 0 repolling_session ascii "Rows [later_row]", simplified]
    by (simp add: repolling_session_def replied_again_session_def t update_poller_def)
qed

section \<open>The claims\<close>

text \<open>
  Claim C1. When no query of the lookup store ever brings a reply, be it because the
  store returns no row or because the query raises, the polling loop makes 120 queries,
  each followed by a wait of 5 seconds, changes nothing but the flag, which it clears at
  the end, and returns. An exception of the query is caught in the loop and counts like
  an empty answer. (If the flag is already clear when the thread starts, it makes no
  query at all.) The function is total: it has a value for every store.
\<close>

theorem poll_for_response_times_out:
  assumes "\<forall>k<120. store k = QueryRaises \<or> store k = Rows []"
  shows "poll_for_response m store s =
           (s\<lparr>polling_active := False\<rparr>,
            if polling_active s
            then concat (replicate 120 [Query (submitted_report_id s), Sleep 5])
            else [])"
proof (cases "polling_active s")
  case True
  have "\<And>k. k < max_polls \<Longrightarrow> no_result (store k)"
    using assms by (auto simp: max_polls_def no_result_def)
  then have "poll_loop m store s 0 [] =
      (s, max_polls, [] @ concat (replicate max_polls [Query (submitted_report_id s), Sleep 5]))"
    using True by (intro poll_loop_no_result) auto
  then show ?thesis using True
    by (simp add: poll_for_response_def stop_after_max_def max_polls_def)
next
  case False
  then show ?thesis
    by (simp add: poll_for_response_def poll_loop_stop stop_after_max_def max_polls_def
        clear_flag_idle)
qed

theorem poll_for_response_times_out_witness:
  "poll_for_response ascii store_down submitted_app =
     (submitted_app\<lparr>polling_active := False\<rparr>,
      concat (replicate 120 [Query (PInt 17), Sleep 5])) \<and>
   queries (snd (poll_for_response ascii store_down submitted_app)) = 120 \<and>
   waited (snd (poll_for_response ascii store_down submitted_app)) = 600"
proof -
  have h: "\<forall>k<120. store_down k = QueryRaises \<or> store_down k = Rows []"
    by (simp add: store_down_def)
  show ?thesis
    using poll_for_response_times_out[OF h, where m = ascii and s = submitted_app]
    by (simp add: submitted_app_simps queries_rounds waited_rounds)
qed

text \<open>
  Claim C2, as the code has it. In every session reachable from a fresh application
  object by the operations of the primary flow and by turns of the polling thread, the
  flag \<open>polling_active\<close> is set only if the lookup-store client is configured;
  \<open>start_response_polling\<close> called while the flag is set changes nothing and starts no
  thread; at most one polling thread is alive; and a step that raises the flag ends with
  a stored identifier that passes the test of truth. The identifier is not kept that
  way: a later push stores whatever the platform sends.
\<close>

theorem polling_flag_invariant:
  assumes "reachable m c"
  shows "(polling_active (the_app c) \<longrightarrow> supabase (the_app c)) \<and>
         (polling_active (the_app c) \<longrightarrow>
            start_response_polling (the_app c) = (the_app c, [])) \<and>
         length (pollers c) \<le> 1 \<and>
         (step m c c' \<longrightarrow> \<not> polling_active (the_app c) \<longrightarrow> polling_active (the_app c') \<longrightarrow>
            py_truthy (submitted_report_id (the_app c')) \<and> supabase (the_app c'))"
proof -
  have inv: "coordinator_inv c" using assms by (rule reachable_inv)
  have raised: "py_truthy (submitted_report_id (the_app c')) \<and> supabase (the_app c')"
    if st: "step m c c'" and off: "\<not> polling_active (the_app c)"
      and on: "polling_active (the_app c')"
  proof -
    have "coordinator_inv c'" using st inv by (rule step_inv)
    then have "supabase (the_app c')" using on by (simp add: coordinator_inv_def)
    moreover have "py_truthy (submitted_report_id (the_app c'))"
      using st off on by (auto simp: step_def dest: primary_raises_flag poll_step_raises_flag)
    ultimately show ?thesis by simp
  qed
  show ?thesis
    using inv raised by (auto simp: coordinator_inv_def start_response_polling_def)
qed

theorem polling_flag_invariant_witness:
  "supabase (the_app polling_session) \<and>
   start_response_polling (the_app polling_session) = (the_app polling_session, []) \<and>
   length (pollers polling_session) = 1 \<and>
   py_truthy (submitted_report_id (the_app polling_session))"
proof -
  have st: "step ascii \<lparr>the_app = chatted_app, pollers = []\<rparr> polling_session"
    using chatted_starts_polling by (simp add: step_def)
  have off: "\<not> polling_active (the_app \<lparr>the_app = chatted_app, pollers = []\<rparr>)"
    by (simp add: chatted_app_simps)
  have on: "polling_active (the_app polling_session)"
    by (simp add: polling_session_def submitted_app_simps)
  show ?thesis
    using polling_flag_invariant[OF reachable_chatted, where c' = polling_session]
      polling_flag_invariant[OF reachable_polling_session] st off on
    by (simp add: polling_session_def)
qed

text \<open>
  The claim as it was stated wants an identifier stored whenever the flag is set. While
  the thread of a first push is polling, a second push answered with status 201 and the
  body \<open>{"id": null}\<close> stores \<open>None\<close>: the session is reachable, its flag is set and
  no identifier is stored.
\<close>

theorem polling_without_identifier_counterexample:
  "reachable ascii overwritten_session \<and>
   polling_active (the_app overwritten_session) \<and>
   submitted_report_id (the_app overwritten_session) = PNone"
  using reachable_overwritten_session
  by (simp add: overwritten_session_def push_null_id submitted_app_simps)

text \<open>
  Claim C3, as the code has it. Once the two checks of \<open>push_report_to_care_bridge\<close>
  have passed, exactly one POST is issued. If it raises, or if the status is not 201, or
  if the body of a 201 response cannot be decoded or is not a JSON object, the result is
  a failure with a message (the status code and the body for a status other than 201)
  and the application object is unchanged: no identifier stored, no polling started. On
  a 201 response whose body is a JSON object the result is a success; the value of its
  \<open>id\<close> entry is stored as it is, the text \<open>Unknown\<close> when there is no such entry; and
  a polling thread is started if that value passes the test of truth, the client is
  configured and no thread is polling already.
\<close>

theorem push_outcomes:
  assumes "is_onboarded s" and "conversation_history (report_data s) \<noteq> []"
  shows "(case post (push_request m base_url s) of
            PostRaises e \<Rightarrow>
              push_report_to_care_bridge m post base_url s =
                (handle_exn e, s, [HttpPost (push_request m base_url s)]) \<and> \<not> fst (handle_exn e)
          | Response response \<Rightarrow>
              if status_code response \<noteq> 201 then
                push_report_to_care_bridge m post base_url s =
                  ((False, cross @ '' API Error: '' @ str_int (status_code response) @ '' - ''
                             @ body_text response),
                   s, [HttpPost (push_request m base_url s)])
              else
                (case json response of
                   Inl e \<Rightarrow>
                     push_report_to_care_bridge m post base_url s =
                       (handle_exn e, s, [HttpPost (push_request m base_url s)])
                     \<and> \<not> fst (handle_exn e)
                 | Inr (JsonOther type_name) \<Rightarrow>
                     push_report_to_care_bridge m post base_url s =
                       (handle_exn (no_get type_name), s, [HttpPost (push_request m base_url s)])
                     \<and> \<not> fst (handle_exn (no_get type_name))
                 | Inr (JsonObject entry) \<Rightarrow>
                     push_report_to_care_bridge m post base_url s =
                       ((True, msg_pushed (py_str (id_or_unknown entry))),
                        (if supabase s \<and> py_truthy (id_or_unknown entry) \<and> \<not> polling_active s
                         then s\<lparr>submitted_report_id := id_or_unknown entry, polling_active := True\<rparr>
                         else s\<lparr>submitted_report_id := id_or_unknown entry\<rparr>),
                        (if supabase s \<and> py_truthy (id_or_unknown entry) \<and> \<not> polling_active s
                         then [HttpPost (push_request m base_url s), ThreadStart]
                         else [HttpPost (push_request m base_url s)]))))
         \<and> posts (snd (snd (push_report_to_care_bridge m post base_url s))) = 1"
  using assms
  by (auto simp: push_report_to_care_bridge_def Let_def handle_exn_fails msg_api_error_def posts_def
        start_response_polling_def
        split: http_outcome.splits sum.splits prod.splits json_body.splits)

theorem push_outcomes_witness:
  "push_report_to_care_bridge ascii post_server_error care_bridge chatted_app =
     ((False, cross @ '' API Error: 500 - Internal Server Error''), chatted_app,
      [HttpPost (push_request ascii care_bridge chatted_app)]) \<and>
   push_report_to_care_bridge ascii post_refused care_bridge chatted_app =
     ((False, cross @ '' Could not connect to Care Bridge Platform. Please check if the platform is running.''),
      chatted_app, [HttpPost (push_request ascii care_bridge chatted_app)]) \<and>
   push_report_to_care_bridge ascii post_created_list care_bridge chatted_app =
     (handle_exn (no_get ''list''), chatted_app,
      [HttpPost (push_request ascii care_bridge chatted_app)]) \<and>
   push_report_to_care_bridge ascii post_created_zero_id care_bridge chatted_app =
     ((True, msg_pushed ''0''), chatted_app\<lparr>submitted_report_id := PInt 0\<rparr>,
      [HttpPost (push_request ascii care_bridge chatted_app)]) \<and>
   push_report_to_care_bridge ascii post_created care_bridge chatted_app =
     ((True, msg_pushed ''17''),
      chatted_app\<lparr>submitted_report_id := PInt 17, polling_active := True\<rparr>,
      [HttpPost (push_request ascii care_bridge chatted_app), ThreadStart])"
proof -
  have g: "is_onboarded chatted_app" "conversation_history (report_data chatted_app) \<noteq> []"
    by (simp_all add: chatted_app_simps)
  have n: "str_int 500 = ''500''" "str_int 0 = ''0''" "str_int 17 = ''17''" by code_simp+
  show ?thesis
    using push_outcomes[OF g, where post = post_server_error and m = ascii and base_url = care_bridge]
      push_outcomes[OF g, where post = post_refused and m = ascii and base_url = care_bridge]
      push_outcomes[OF g, where post = post_created_list and m = ascii and base_url = care_bridge]
      push_outcomes[OF g, where post = post_created_zero_id and m = ascii and base_url = care_bridge]
      push_outcomes[OF g, where post = post_created and m = ascii and base_url = care_bridge]
    by (simp add: post_server_error_def post_refused_def post_created_list_def
        post_created_zero_id_def post_created_def n handle_exn_def id_or_unknown_def
        chatted_app_simps)
qed

text \<open>
  The claim as it was stated fails on a 201 response without an \<open>id\<close>: the body
  \<open>{}\<close> makes the push store the identifier \<open>Unknown\<close> and start the polling thread.
\<close>

theorem push_created_without_id_counterexample:
  "submitted_report_id
     (fst (snd (push_report_to_care_bridge ascii post_created_without_id care_bridge chatted_app)))
     = PStr ''Unknown'' \<and>
   polling_active
     (fst (snd (push_report_to_care_bridge ascii post_created_without_id care_bridge chatted_app))) \<and>
   snd (snd (push_report_to_care_bridge ascii post_created_without_id care_bridge chatted_app))
     = [HttpPost (push_request ascii care_bridge chatted_app), ThreadStart]"
  by (simp add: push_report_to_care_bridge_def Let_def chatted_app_simps post_created_without_id_def
      start_response_polling_def id_or_unknown_def)

text \<open>
  Claim C4, as the code has it. When the structured call fails, by an exception of the
  request or by an answer that does not validate, \<open>generate_comprehensive_report\<close> still
  returns the report rendered from the application object, in which the severity score
  is 6 and the risk indicators are the three fallback texts; every other field of the
  assessment, the analysis and the cultural context among them, is what it was before
  the call.
\<close>

theorem report_fallback_record:
  assumes "is_onboarded s" and "ollama_conversation s \<noteq> []"
    and "structured_call_fails chat model_validate_json s"
  shows "fst (generate_comprehensive_report m clk chat model_validate_json cb s) =
           format_report m clk
             (fst (snd (generate_comprehensive_report m clk chat model_validate_json cb s))) \<and>
         assessment_data
             (report_data (fst (snd (generate_comprehensive_report m clk chat model_validate_json cb s)))) =
           (assessment_data (report_data s))
             \<lparr>severity_score := 6,
              risk_indicators := [''sleep disturbances'', ''behavioral changes'', ''anxiety'']\<rparr>"
  using assms structured_fails[OF assms(3), where cb = cb]
  by (auto simp: generate_comprehensive_report_def Let_def fallback_assessment_def
      fallback_indicators_def)

theorem report_fallback_record_witness:
  "severity_score (assessment_data (report_data (fst (snd
      (generate_comprehensive_report ascii some_clock chat_down validate_none False chatted_app))))) = 6 \<and>
   risk_indicators (assessment_data (report_data (fst (snd
      (generate_comprehensive_report ascii some_clock chat_down validate_none False chatted_app))))) =
      [''sleep disturbances'', ''behavioral changes'', ''anxiety''] \<and>
   ai_analysis (assessment_data (report_data (fst (snd
      (generate_comprehensive_report ascii some_clock chat_down validate_none False chatted_app))))) = []"
proof -
  have g: "is_onboarded chatted_app" "ollama_conversation chatted_app \<noteq> []"
    by (simp_all add: chatted_app_simps)
  show ?thesis
    using report_fallback_record[OF g chat_down_fails, where m = ascii and clk = some_clock
        and cb = False]
    by (simp add: chatted_app_simps)
qed

text \<open>
  The claim as it was stated says that the cultural context is left blank. After the
  onboarding of a child in Gaza and one text turn, a synthesis whose request raises
  returns a record whose cultural context is the text written at onboarding.
\<close>

theorem report_fallback_context_counterexample:
  "cultural_context (assessment_data (report_data (fst (snd
      (generate_comprehensive_report ascii some_clock chat_down validate_none False chatted_app))))) =
     ''Assessment conducted considering ongoing conflict exposure and displacement trauma''"
  using structured_fails[OF chat_down_fails, where cb = False and s = chatted_app]
  by (auto simp: generate_comprehensive_report_def Let_def chatted_app_simps fallback_assessment_def)

text \<open>
  Claim C5, as the code has it. As long as no row is stored,
  \<open>get_specialist_response\<close> returns \<open>False\<close> with the text ``No specialist response
  available yet. Still monitoring...''. Once a row is stored, a row is stored after any
  number of further steps of the session, and a call gives \<open>True\<close> with the rendering
  of the row stored at that moment, or raises when the rendering does. For a stored row
  that has the five columns, with a text as urgency level and as response date, the
  call returns \<open>True\<close> with the template filled from these columns. No operation of
  the primary flow changes what the call returns; only a polling turn that stores a row
  does.
\<close>

theorem get_specialist_response_replies:
  "(specialist_response (the_app c) = None \<longrightarrow>
      get_specialist_response m (the_app c) =
        Some (False, ''No specialist response available yet. Still monitoring...'')) \<and>
   (rtranclp (step m) c c' \<longrightarrow> specialist_response (the_app c) \<noteq> None \<longrightarrow>
      (\<exists>r'. specialist_response (the_app c') = Some r' \<and>
            get_specialist_response m (the_app c') =
              map_option (Pair True) (format_response m r'))) \<and>
   (specialist_response (the_app c) = Some r \<and>
    text_column r ''urgency_level'' = Some level \<and>
    text_column r ''response_date'' = Some date \<and>
    column r ''psychologist_id'' = Some psychologist_id \<and>
    column r ''psychologist_notes'' = Some psychologist_notes \<and>
    column r ''recommendations'' = Some recs \<longrightarrow>
      get_specialist_response m (the_app c) =
        Some (True, response_template m level date psychologist_id psychologist_notes recs)) \<and>
   (primary m c c' \<longrightarrow>
      get_specialist_response m (the_app c') = get_specialist_response m (the_app c))"
proof (intro conjI impI)
  assume "specialist_response (the_app c) = None"
  then show "get_specialist_response m (the_app c) =
        Some (False, ''No specialist response available yet. Still monitoring...'')"
    by (simp add: get_specialist_response_def msg_no_response_def)
next
  assume "rtranclp (step m) c c'" "specialist_response (the_app c) \<noteq> None"
  then have "specialist_response (the_app c') \<noteq> None" by (rule steps_keep_reply)
  then show "\<exists>r'. specialist_response (the_app c') = Some r' \<and>
            get_specialist_response m (the_app c') =
              map_option (Pair True) (format_response m r')"
    by (auto simp: get_specialist_response_def split: option.splits)
next
  assume "specialist_response (the_app c) = Some r \<and>
    text_column r ''urgency_level'' = Some level \<and>
    text_column r ''response_date'' = Some date \<and>
    column r ''psychologist_id'' = Some psychologist_id \<and>
    column r ''psychologist_notes'' = Some psychologist_notes \<and>
    column r ''recommendations'' = Some recs"
  then show "get_specialist_response m (the_app c) =
        Some (True, response_template m level date psychologist_id psychologist_notes recs)"
    by (simp add: get_specialist_response_def format_response_def)
next
  assume "primary m c c'"
  then show "get_specialist_response m (the_app c') = get_specialist_response m (the_app c)"
    by (simp add: get_specialist_response_def primary_same_reply)
qed

theorem get_specialist_response_replies_witness:
  "get_specialist_response ascii fresh_app =
      Some (False, ''No specialist response available yet. Still monitoring...'') \<and>
   get_specialist_response ascii (the_app replied_session) =
      Some (True, response_template ascii ''high'' ''2025-03-02T08:30:00.123456+00:00''
                    (PStr ''psy-4'') (PStr ''Signs of acute stress.'')
                    (PDict (''{'' @ [CHR 0x27] @ ''follow_up'' @ [CHR 0x27] @ '': ''
                              @ [CHR 0x27] @ ''within 3 days'' @ [CHR 0x27] @ ''}'')
                           [(''follow_up'', ''within 3 days'')])) \<and>
   get_specialist_response ascii (clear_conversation (the_app replied_session)) =
      get_specialist_response ascii (the_app replied_session) \<and>
   format_recommendations ascii
      (PDict (''{'' @ [CHR 0x27] @ ''follow_up'' @ [CHR 0x27] @ '': ''
                @ [CHR 0x27] @ ''within 3 days'' @ [CHR 0x27] @ ''}'')
             [(''follow_up'', ''within 3 days'')]) =
      ''**Follow Up:** within 3 days\<newline>\<newline>'' \<and>
   format_recommendations ascii (PStr ''Keep the routine.'') = ''Keep the routine.''"
proof -
  let ?c' = "replied_session\<lparr>the_app := clear_conversation (the_app replied_session)\<rparr>"
  let ?f = "\<lparr>the_app = fresh_app, pollers = []\<rparr>"
  have s: "primary ascii replied_session ?c'" by (rule primary.clear)
  have r: "specialist_response (the_app replied_session) = Some reply_row"
    by (simp add: replied_session_def)
  have cols: "text_column reply_row ''urgency_level'' = Some ''high''"
    "text_column reply_row ''response_date'' = Some ''2025-03-02T08:30:00.123456+00:00''"
    "column reply_row ''psychologist_id'' = Some (PStr ''psy-4'')"
    "column reply_row ''psychologist_notes'' = Some (PStr ''Signs of acute stress.'')"
    "column reply_row ''recommendations'' =
       Some (PDict (''{'' @ [CHR 0x27] @ ''follow_up'' @ [CHR 0x27] @ '': ''
                      @ [CHR 0x27] @ ''within 3 days'' @ [CHR 0x27] @ ''}'')
                   [(''follow_up'', ''within 3 days'')])"
    by (simp_all add: reply_row_def text_column_def column_def)
  have n: "specialist_response (the_app ?f) = None"
    by (simp add: fresh_app_simps)
  have e: "format_recommendations ascii
      (PDict (''{'' @ [CHR 0x27] @ ''follow_up'' @ [CHR 0x27] @ '': ''
                @ [CHR 0x27] @ ''within 3 days'' @ [CHR 0x27] @ ''}'')
             [(''follow_up'', ''within 3 days'')]) =
      ''**Follow Up:** within 3 days\<newline>\<newline>''"
    "format_recommendations ascii (PStr ''Keep the routine.'') = ''Keep the routine.''"
    by (simp_all add: format_recommendations_def format_items_example del: format_items.simps)
  show ?thesis
    using get_specialist_response_replies[where c = replied_session and m = ascii and c' = ?c'
        and r = reply_row and level = "''high''"
        and date = "''2025-03-02T08:30:00.123456+00:00''"
        and psychologist_id = "PStr ''psy-4''"
        and psychologist_notes = "PStr ''Signs of acute stress.''"
        and recs = "PDict (''{'' @ [CHR 0x27] @ ''follow_up'' @ [CHR 0x27] @ '': ''
                  @ [CHR 0x27] @ ''within 3 days'' @ [CHR 0x27] @ ''}'')
               [(''follow_up'', ''within 3 days'')]"]
      get_specialist_response_replies[where c = ?f and m = ascii and c' = ?f]
      s r cols n e
    by simp
qed

text \<open>
  The claim as it was stated fails in three ways. Before any reply the text is not
  empty. After the thread has stored a row whose urgency level is null, a row is stored
  and the call raises. And a row stored is replaced by the row a later polling turn
  finds, so the text of one call is not the text of the next.
\<close>

theorem get_specialist_response_counterexample:
  "get_specialist_response ascii fresh_app =
     Some (False, ''No specialist response available yet. Still monitoring...'') \<and>
   get_specialist_response ascii fresh_app \<noteq> Some (False, []) \<and>
   reachable ascii null_urgency_session \<and>
   specialist_response (the_app null_urgency_session) = Some null_urgency_row \<and>
   get_specialist_response ascii (the_app null_urgency_session) = None \<and>
   reachable ascii repolling_session \<and>
   step ascii repolling_session replied_again_session \<and>
   get_specialist_response ascii (the_app repolling_session) =
     map_option (Pair True) (format_response ascii reply_row) \<and>
   get_specialist_response ascii (the_app replied_again_session) =
     map_option (Pair True) (format_response ascii later_row) \<and>
   format_response ascii reply_row \<noteq> None \<and>
   format_response ascii later_row \<noteq> None \<and>
   get_specialist_response ascii (the_app replied_again_session) \<noteq>
     get_specialist_response ascii (the_app repolling_session)"
proof -
  have a: "get_specialist_response ascii fresh_app =
      Some (False, ''No specialist response available yet. Still monitoring...'')"
    by (simp add: get_specialist_response_def fresh_app_simps msg_no_response_def)
  have b: "get_specialist_response ascii (the_app null_urgency_session) = None"
    "specialist_response (the_app null_urgency_session) = Some null_urgency_row"
    by (simp_all add: get_specialist_response_def null_urgency_session_def
        null_urgency_row_raises)
  have c: "get_specialist_response ascii (the_app repolling_session) =
      map_option (Pair True) (format_response ascii reply_row)"
    "get_specialist_response ascii (the_app replied_again_session) =
      map_option (Pair True) (format_response ascii later_row)"
    by (simp_all add: get_specialist_response_def repolling_session_def
        replied_again_session_def split: option.splits)
  have d: "format_response ascii reply_row \<noteq> None" "format_response ascii later_row \<noteq> None"
    by (simp_all add: reply_row_renders later_row_renders)
  have e: "get_specialist_response ascii (the_app replied_again_session) \<noteq>
      get_specialist_response ascii (the_app repolling_session)"
    using renderings_differ d unfolding c by (auto simp: map_option_case split: option.splits)
  have f: "step ascii repolling_session replied_again_session"
    using repolling_finds_later_row by (simp add: step_def)
  show ?thesis
    using a b c d e f reachable_null_urgency_session reachable_repolling_session by simp
qed

text \<open>
  Claim C6, as the code has it. With an empty conversation history the push is rejected
  before any request is built: the result is a failure, the application object is
  unchanged and no effect takes place. The message asks for a conversation when the
  session is onboarded; when it is not, the earlier check answers and the message asks
  for the assessment form.
\<close>

theorem push_rejects_empty_transcript:
  assumes "conversation_history (report_data s) = []"
  shows "push_report_to_care_bridge m post base_url s =
           ((False, if is_onboarded s
                    then ''Please have a conversation first before pushing a report.''
                    else ''Please complete the initial assessment form first.''),
            s, [])"
  using assms
  by (simp add: push_report_to_care_bridge_def msg_complete_form_def msg_conversation_before_push_def)

theorem push_rejects_empty_transcript_witness:
  "push_report_to_care_bridge ascii post_created care_bridge onboarded_app =
     ((False, ''Please have a conversation first before pushing a report.''), onboarded_app, [])"
  using push_rejects_empty_transcript[where s = onboarded_app and m = ascii
      and post = post_created and base_url = care_bridge]
  by (simp add: onboarded_app_simps)

text \<open>
  The claim as it was stated covers every session whose history is empty. On the fresh
  application object, whose history is empty, the message is the one about the form.
\<close>

theorem push_not_onboarded_counterexample:
  "conversation_history (report_data fresh_app) = [] \<and>
   fst (push_report_to_care_bridge ascii post_created care_bridge fresh_app) =
     (False, ''Please complete the initial assessment form first.'')"
  by (simp add: push_report_to_care_bridge_def fresh_app_simps msg_complete_form_def)

text \<open>
  Claim C7. \<open>clear_conversation\<close> empties the conversation history, the observations
  and the three sequences of attachments, and leaves the child information and the
  identifier of the session as they were.
\<close>

theorem clear_conversation_frame:
  "conversation_history (report_data (clear_conversation s)) = [] \<and>
   parent_observations (assessment_data (report_data (clear_conversation s))) = [] \<and>
   media_attachments (report_data (clear_conversation s)) =
     \<lparr>drawings = [], audio_recordings = [], photos = []\<rparr> \<and>
   child_info (report_data (clear_conversation s)) = child_info (report_data s) \<and>
   mobile_app_id (report_data (clear_conversation s)) = mobile_app_id (report_data s)"
  by (simp add: clear_conversation_def Let_def)

text \<open>
  Claim C8. In an onboarded session a text turn \<open>a\<close> is put at the end of the
  observations, after one space if there are observations already; so from empty
  observations the turns \<open>a\<close> and then \<open>b\<close> give \<open>a\<close>, one space, \<open>b\<close>. The files
  sent along and the histories passed in play no part.
\<close>

theorem add_message_observations_in_order:
  assumes "is_onboarded s" and "a \<noteq> []" and "b \<noteq> []"
  shows "parent_observations (assessment_data (report_data
            (snd (add_message m now s h \<lparr>files = fs, msg_text = a\<rparr>)))) =
           (if parent_observations (assessment_data (report_data s)) = [] then a
            else parent_observations (assessment_data (report_data s)) @ '' '' @ a) \<and>
         (parent_observations (assessment_data (report_data s)) = [] \<longrightarrow>
            parent_observations (assessment_data (report_data
              (snd (add_message m now' (snd (add_message m now s h \<lparr>files = fs, msg_text = a\<rparr>)) h'
                      \<lparr>files = fs', msg_text = b\<rparr>)))) = a @ '' '' @ b)"
  using assms by (simp add: add_message_def Let_def truthy_def split: prod.splits)

theorem add_message_observations_in_order_witness:
  "parent_observations (assessment_data (report_data
      (snd (add_message ascii fixed_clock
              (snd (add_message ascii fixed_clock onboarded_app [] \<lparr>files = [], msg_text = ''A''\<rparr>))
              [\<lparr>role = User, content = Text ''A''\<rparr>] \<lparr>files = [], msg_text = ''B''\<rparr>)))) = ''A B'' \<and>
   ''A B'' \<noteq> ''B A'' \<and> ''A B'' \<noteq> ''AB''"
proof -
  have g: "is_onboarded onboarded_app" "''A'' \<noteq> []" "''B'' \<noteq> []"
    by (simp_all add: onboarded_app_simps)
  show ?thesis
    using add_message_observations_in_order[OF g, where m = ascii and now = fixed_clock
        and h = "[]" and fs = "[]" and now' = fixed_clock
        and h' = "[\<lparr>role = User, content = Text ''A''\<rparr>]" and fs' = "[]"]
    by (simp add: onboarded_app_simps)
qed

text \<open>
  Claim C9. \<open>complete_onboarding\<close> checks no range of the age: with a non-empty name,
  gender and location and any age other than zero it succeeds, stores the age truncated
  to an integer, and sets \<open>is_onboarded\<close>.
\<close>

theorem complete_onboarding_any_age:
  assumes "child_name \<noteq> []" and "child_age \<noteq> 0" and "child_gender \<noteq> []"
    and "child_location \<noteq> []"
  shows "fst (complete_onboarding m s child_name child_age child_gender child_location) =
           (True, msg_welcome child_name) \<and>
         child_info (report_data
            (snd (complete_onboarding m s child_name child_age child_gender child_location))) =
           \<lparr>name = child_name, age = py_int child_age, gender = child_gender,
            location = child_location\<rparr> \<and>
         is_onboarded (snd (complete_onboarding m s child_name child_age child_gender child_location))"
  using assms by (simp add: complete_onboarding_def Let_def truthy_def)

theorem complete_onboarding_any_age_witness:
  "age (child_info (report_data (snd (complete_onboarding ascii fresh_app ''Sam'' 1 ''Female'' ''Gaza'')))) = 1 \<and>
   age (child_info (report_data (snd (complete_onboarding ascii fresh_app ''Sam'' 100 ''Female'' ''Gaza'')))) = 100 \<and>
   age (child_info (report_data (snd (complete_onboarding ascii fresh_app ''Sam'' (- 3) ''Female'' ''Gaza'')))) = - 3 \<and>
   is_onboarded (snd (complete_onboarding ascii fresh_app ''Sam'' (- 3) ''Female'' ''Gaza'')) \<and>
   fst (complete_onboarding ascii fresh_app ''Sam'' (- 3) ''Female'' ''Gaza'') = (True, msg_welcome ''Sam'')"
  using complete_onboarding_any_age[where child_name = "''Sam''" and child_age = 1
      and child_gender = "''Female''" and child_location = "''Gaza''" and m = ascii
      and s = fresh_app]
    complete_onboarding_any_age[where child_name = "''Sam''" and child_age = 100
      and child_gender = "''Female''" and child_location = "''Gaza''" and m = ascii
      and s = fresh_app]
    complete_onboarding_any_age[where child_name = "''Sam''" and child_age = "- 3"
      and child_gender = "''Female''" and child_location = "''Gaza''" and m = ascii
      and s = fresh_app]
  by (simp add: py_int_def)

text \<open>
  Claim C10, as the code has it. \<open>clear_conversation\<close> leaves the model-facing buffer
  as it is, and the two checks read different state. The push reads the conversation
  history: after a reset it is rejected for want of a conversation, and with a
  non-empty history it issues its POST whatever the buffer holds. The synthesis reads
  the buffer: after a reset of a session whose buffer is empty it returns the
  instruction to have a conversation first; after a reset of a session whose buffer is
  not empty it runs. It then sends the structured request, whose prompt is built from
  the child information alone, stores the validated answer or the fallback, and returns
  the rendered report. The turns in the buffer only let the check pass: with any other
  non-empty buffer the request, the report and the effects are the same.
\<close>

theorem gates_read_different_state:
  assumes "is_onboarded s"
  shows "ollama_conversation (clear_conversation s) = ollama_conversation s \<and>
         push_report_to_care_bridge m post base_url (clear_conversation s) =
           ((False, ''Please have a conversation first before pushing a report.''),
            clear_conversation s, []) \<and>
         (conversation_history (report_data s) \<noteq> [] \<longrightarrow>
            posts (snd (snd (push_report_to_care_bridge m post base_url s))) = 1) \<and>
         (ollama_conversation s = [] \<longrightarrow>
            generate_comprehensive_report m clk chat model_validate_json cb (clear_conversation s) =
              (''Please have a conversation first before generating a report.'',
               clear_conversation s, [])) \<and>
         (ollama_conversation s \<noteq> [] \<longrightarrow>
            fst (generate_comprehensive_report m clk chat model_validate_json cb (clear_conversation s)) =
              format_report m clk
                (fst (snd (generate_comprehensive_report m clk chat model_validate_json cb
                             (clear_conversation s)))) \<and>
            fst (generate_comprehensive_report m clk chat model_validate_json cb (clear_conversation s)) \<noteq>
              ''Please have a conversation first before generating a report.'' \<and>
            fst (snd (generate_comprehensive_report m clk chat model_validate_json cb
                        (clear_conversation s))) =
              (clear_conversation s)
                \<lparr>report_data := (report_data (clear_conversation s))
                   \<lparr>assessment_data := synthesized chat model_validate_json (clear_conversation s)\<rparr>\<rparr> \<and>
            ChatRequest (StructuredChat (assessment_prompt (child_info (report_data s))))
              \<in> set (snd (snd (generate_comprehensive_report m clk chat model_validate_json cb
                                  (clear_conversation s)))) \<and>
            (\<forall>conv. conv \<noteq> [] \<longrightarrow>
               fst (generate_comprehensive_report m clk chat model_validate_json cb
                      ((clear_conversation s)\<lparr>ollama_conversation := conv\<rparr>)) =
                 fst (generate_comprehensive_report m clk chat model_validate_json cb
                        (clear_conversation s)) \<and>
               snd (snd (generate_comprehensive_report m clk chat model_validate_json cb
                           ((clear_conversation s)\<lparr>ollama_conversation := conv\<rparr>))) =
                 snd (snd (generate_comprehensive_report m clk chat model_validate_json cb
                             (clear_conversation s)))))"
proof -
  let ?s = "clear_conversation s"
  have on: "is_onboarded ?s" using assms by (simp add: clear_conversation_keeps)
  have p: "push_report_to_care_bridge m post base_url ?s =
      ((False, ''Please have a conversation first before pushing a report.''), ?s, [])"
    using on by (simp add: push_report_to_care_bridge_def clear_conversation_keeps
        msg_conversation_before_push_def)
  have q: "conversation_history (report_data s) \<noteq> [] \<Longrightarrow>
      posts (snd (snd (push_report_to_care_bridge m post base_url s))) = 1"
    using assms by (rule push_posts_once)
  have e: "ollama_conversation s = [] \<Longrightarrow>
      generate_comprehensive_report m clk chat model_validate_json cb ?s =
        (''Please have a conversation first before generating a report.'', ?s, [])"
    using on by (simp add: generate_comprehensive_report_def clear_conversation_keeps
        msg_conversation_before_report_def)
  have n: "ollama_conversation ?s \<noteq> []" if "ollama_conversation s \<noteq> []"
    using that by (simp add: clear_conversation_keeps)
  show ?thesis
    using p q e generate_passed[OF on n, where m = m and clk = clk and chat = chat
        and validate = model_validate_json and cb = cb]
      generate_buffer[OF on n, where m = m and clk = clk and chat = chat
        and validate = model_validate_json and cb = cb]
      format_report_not_instruction[of m clk]
    by (simp add: clear_conversation_keeps msg_conversation_before_report_def)
qed

theorem gates_read_different_state_witness:
  "push_report_to_care_bridge ascii post_created care_bridge (clear_conversation chatted_app) =
      ((False, ''Please have a conversation first before pushing a report.''),
       clear_conversation chatted_app, []) \<and>
   posts (snd (snd (push_report_to_care_bridge ascii post_refused care_bridge chatted_app))) = 1 \<and>
   generate_comprehensive_report ascii some_clock chat_answers validate_sample False
      (clear_conversation onboarded_app) =
      (''Please have a conversation first before generating a report.'',
       clear_conversation onboarded_app, []) \<and>
   fst (generate_comprehensive_report ascii some_clock chat_answers validate_sample False
          (clear_conversation chatted_app)) =
      format_report ascii some_clock
        (fst (snd (generate_comprehensive_report ascii some_clock chat_answers validate_sample False
                     (clear_conversation chatted_app)))) \<and>
   assessment_data (report_data
      (fst (snd (generate_comprehensive_report ascii some_clock chat_answers validate_sample False
                   (clear_conversation chatted_app))))) = sample_assessment \<and>
   fst (generate_comprehensive_report ascii some_clock chat_answers validate_sample False
          ((clear_conversation chatted_app)
             \<lparr>ollama_conversation := [\<lparr>msg_role = User, msg_content = ''She stopped talking''\<rparr>]\<rparr>)) =
      fst (generate_comprehensive_report ascii some_clock chat_answers validate_sample False
             (clear_conversation chatted_app))"
proof -
  have g: "is_onboarded chatted_app" "ollama_conversation chatted_app \<noteq> []"
    "conversation_history (report_data chatted_app) \<noteq> []"
    by (simp_all add: chatted_app_simps)
  have h: "is_onboarded onboarded_app" "ollama_conversation onboarded_app = []"
    by (simp_all add: onboarded_app_simps)
  show ?thesis
    using gates_read_different_state[OF g(1), where m = ascii and post = post_created
        and base_url = care_bridge and clk = some_clock and chat = chat_answers
        and model_validate_json = validate_sample and cb = False]
      gates_read_different_state[OF g(1), where m = ascii and post = post_refused
        and base_url = care_bridge and clk = some_clock and chat = chat_answers
        and model_validate_json = validate_sample and cb = False]
      gates_read_different_state[OF h(1), where m = ascii and post = post_created
        and base_url = care_bridge and clk = some_clock and chat = chat_answers
        and model_validate_json = validate_sample and cb = False]
      g h
    by (simp add: synthesized_def chat_answers_def validate_sample_def)
qed

text \<open>
  The claim as it was stated has the synthesis after a reset work from the turns of
  before the reset. Two sessions that differ in their one text turn have different
  buffers after the reset, and the synthesis sends the same request and returns the
  same report for both: the turns are in neither.
\<close>

theorem report_ignores_turns_counterexample:
  "ollama_conversation (clear_conversation chatted_app) =
     [\<lparr>msg_role = User, msg_content = ''He cannot sleep''\<rparr>] \<and>
   ollama_conversation (clear_conversation other_chatted_app) =
     [\<lparr>msg_role = User, msg_content = ''She stopped talking''\<rparr>] \<and>
   fst (generate_comprehensive_report ascii some_clock chat_answers validate_sample False
          (clear_conversation other_chatted_app)) =
     fst (generate_comprehensive_report ascii some_clock chat_answers validate_sample False
            (clear_conversation chatted_app)) \<and>
   snd (snd (generate_comprehensive_report ascii some_clock chat_answers validate_sample False
               (clear_conversation other_chatted_app))) =
     snd (snd (generate_comprehensive_report ascii some_clock chat_answers validate_sample False
                 (clear_conversation chatted_app))) \<and>
   snd (snd (generate_comprehensive_report ascii some_clock chat_answers validate_sample False
               (clear_conversation chatted_app))) =
     [ChatRequest (StructuredChat (assessment_prompt
        \<lparr>name = ''Sam'', age = 8, gender = ''Female'', location = ''Gaza''\<rparr>))]"
proof -
  let ?s = "clear_conversation chatted_app"
  have on: "is_onboarded ?s" "ollama_conversation ?s \<noteq> []"
    by (simp_all add: clear_conversation_keeps chatted_app_simps)
  have ci: "child_info (report_data chatted_app) =
      \<lparr>name = ''Sam'', age = 8, gender = ''Female'', location = ''Gaza''\<rparr>"
    by (simp add: chatted_app_def add_message_def Let_def truthy_def onboarded_app_simps
        onboarded_app_def complete_onboarding_def py_int_def)
  have es: "snd (snd (generate_comprehensive_report ascii some_clock chat_answers validate_sample
      False ?s)) =
      [ChatRequest (StructuredChat (assessment_prompt
         \<lparr>name = ''Sam'', age = 8, gender = ''Female'', location = ''Gaza''\<rparr>))]"
    using on
    by (simp add: generate_comprehensive_report_def structured_assessment_def Let_def
        progress_effects_def chat_answers_def validate_sample_def clear_conversation_keeps ci)
  show ?thesis
    using generate_buffer[OF on, where conv = "[\<lparr>msg_role = User, msg_content = ''She stopped talking''\<rparr>]"
        and m = ascii and clk = some_clock and chat = chat_answers and validate = validate_sample
        and cb = False] es
    by (simp add: cleared_apps_agree clear_conversation_keeps chatted_app_simps)
qed

end
